theory Spec2Isabelle
  imports Main "HOL-Library.Word"
begin

section \<open>Go values shared by the packages\<close>

text \<open>
  Errors are values.  The constructors are the error values the modelled functions
  create or inspect; \<open>Wrap\<close> is \<^verbatim>\<open>fmt.Errorf("...: %w", err)\<close>, \<open>OpError\<close> is
  \<^verbatim>\<open>*net.OpError\<close> and \<open>SyscallError\<close> is \<^verbatim>\<open>*os.SyscallError\<close>, each holding the
  error it wraps.
\<close>

datatype go_error =
    ErrInvalidNetwork
  | ECONNREFUSED
  | Errno nat
  | DeadlineExceeded
  | ErrTimeout
  | ErrClosed
  | ErrorString string
  | Wrap string go_error
  | SyscallError string go_error
  | OpError string go_error

text \<open>
  \<^verbatim>\<open>errors.Is(err, target)\<close>: some error of the chain of wrapped errors equals the
  target.
\<close>

fun errors_Is :: "go_error \<Rightarrow> go_error \<Rightarrow> bool" where
  "errors_Is (Wrap m e) t = (Wrap m e = t \<or> errors_Is e t)"
| "errors_Is (SyscallError m e) t = (SyscallError m e = t \<or> errors_Is e t)"
| "errors_Is (OpError m e) t = (OpError m e = t \<or> errors_Is e t)"
| "errors_Is e t = (e = t)"

text \<open>
  \<^verbatim>\<open>errors.As(err, &ope)\<close> for \<^verbatim>\<open>ope *net.OpError\<close>: the first \<open>OpError\<close> of the chain;
  the result is the error that \<open>OpError\<close> wraps (\<^verbatim>\<open>ope.Err\<close>).
\<close>

fun errors_As_OpError :: "go_error \<Rightarrow> go_error option" where
  "errors_As_OpError (OpError m e) = Some e"
| "errors_As_OpError (Wrap m e) = errors_As_OpError e"
| "errors_As_OpError (SyscallError m e) = errors_As_OpError e"
| "errors_As_OpError e = None"

text \<open>
  \<^verbatim>\<open>netip.Addr\<close>: the zero value is invalid; a valid address is IPv4 or IPv6
  (the latter with its zone).  \<^verbatim>\<open>Is4\<close>, \<^verbatim>\<open>Is6\<close> and \<^verbatim>\<open>IsValid\<close> read the kind.
\<close>

datatype Addr = AddrZero | Addr4 nat | Addr6 nat string

type_synonym AddrPort = "Addr \<times> nat"

type_synonym byte = "8 word"

fun Is4 :: "Addr \<Rightarrow> bool" where
  "Is4 (Addr4 a) = True"
| "Is4 a = False"

fun Is6 :: "Addr \<Rightarrow> bool" where
  "Is6 (Addr6 a z) = True"
| "Is6 a = False"

fun IsValid :: "Addr \<Rightarrow> bool" where
  "IsValid AddrZero = False"
| "IsValid a = True"

text \<open>Decimal digits of a natural number, and \<^verbatim>\<open>strconv.Itoa\<close>.\<close>

definition digit_char :: "nat \<Rightarrow> char" where
  "digit_char d = ''0123456789'' ! d"

fun FormatUint :: "nat \<Rightarrow> string" where
  "FormatUint n = (if n < 10 then [digit_char n] else FormatUint (n div 10) @ [digit_char (n mod 10)])"

declare FormatUint.simps [simp del]

definition Itoa :: "int \<Rightarrow> string" where
  "Itoa i = (if i < 0 then CHR ''-'' # FormatUint (nat (- i)) else FormatUint (nat i))"

text \<open>\<^verbatim>\<open>strings.Split(s, sep)\<close> for a one-byte separator.\<close>

fun Split :: "string \<Rightarrow> char \<Rightarrow> string list" where
  "Split [] sep = [[]]"
| "Split (c # cs) sep =
     (if c = sep then [] # Split cs sep
      else (case Split cs sep of [] \<Rightarrow> [[c]] | w # ws \<Rightarrow> (c # w) # ws))"

section \<open>networks/constant: protocols and networks\<close>

type_synonym Protocol = string

definition ProtocolTCP :: Protocol where "ProtocolTCP = ''tcp''"
definition ProtocolUDP :: Protocol where "ProtocolUDP = ''udp''"
definition ProtocolIP :: Protocol where "ProtocolIP = ''ip''"
definition ProtocolTCPUDP :: Protocol where "ProtocolTCPUDP = ''tcp+udp''"

type_synonym ProtocolList = "string list"

text \<open>\<^verbatim>\<open>Protocol.ToProtocolList\<close>; the \<^verbatim>\<open>nil\<close> of the default case is the empty list.\<close>

definition ToProtocolList :: "Protocol \<Rightarrow> ProtocolList" where
  "ToProtocolList p =
     (if p = ProtocolTCP then [''tcp'']
      else if p = ProtocolUDP then [''udp'']
      else if p = ProtocolTCPUDP \<or> p = '''' then [''tcp'', ''udp'']
      else if p = ProtocolIP then [''ip'']
      else [])"

definition ParseProtocol :: "string \<Rightarrow> Protocol" where
  "ParseProtocol name =
     (if length name = 0 then ''''
      else if name = ProtocolTCP then ProtocolTCP
      else if name = ProtocolUDP then ProtocolUDP
      else if name = ProtocolIP then ProtocolIP
      else (let multi = Split name (CHR ''+'') in
            if length multi = 2 then
              (if (multi ! 0 = ''tcp'' \<and> multi ! 1 = ''udp'') \<or>
                  (multi ! 0 = ''udp'' \<and> multi ! 1 = ''tcp'')
               then ProtocolTCPUDP else '''')
            else ''''))"

type_synonym NetworkVersion = int

definition NetworkVersion4 :: NetworkVersion where "NetworkVersion4 = 4"
definition NetworkVersion6 :: NetworkVersion where "NetworkVersion6 = 6"
definition NetworkVersionDual :: NetworkVersion where "NetworkVersionDual = 0"

record Network =
  Protocol :: Protocol
  Version :: NetworkVersion

text \<open>
  \<^verbatim>\<open>ParseNetwork\<close>.  In the cases \<^verbatim>\<open>"tcp4", "udp4", "ip4"\<close> and \<^verbatim>\<open>"tcp6", "udp6", "ip6"\<close>
  the protocol is \<^verbatim>\<open>network[:3]\<close> unless the string has three bytes.
\<close>

definition ParseNetwork :: "string \<Rightarrow> go_error + Network" where
  "ParseNetwork network =
     (if network = ProtocolTCP \<or> network = ProtocolUDP \<or> network = ProtocolIP then
        Inr \<lparr>Protocol = network, Version = NetworkVersionDual\<rparr>
      else if network = ''tcp4'' \<or> network = ''udp4'' \<or> network = ''ip4'' then
        Inr \<lparr>Protocol = (if length network = 3 then ProtocolIP else take 3 network),
             Version = NetworkVersion4\<rparr>
      else if network = ''tcp6'' \<or> network = ''udp6'' \<or> network = ''ip6'' then
        Inr \<lparr>Protocol = (if length network = 3 then ProtocolIP else take 3 network),
             Version = NetworkVersion6\<rparr>
      else Inl ErrInvalidNetwork)"

text \<open>\<^verbatim>\<open>Network.String\<close>: the protocol followed by the version number in decimal.\<close>

definition Network_String :: "Network \<Rightarrow> string" where
  "Network_String n = Protocol n @ Itoa (Version n)"

text \<open>\<^verbatim>\<open>ProtocolList.Contain\<close>: the operand is parsed as a network first.\<close>

definition Contain :: "ProtocolList \<Rightarrow> string \<Rightarrow> bool" where
  "Contain n network =
     (case ParseNetwork network of
        Inl err \<Rightarrow> False
      | Inr nn \<Rightarrow> Protocol nn \<in> set n)"

section \<open>networks/listener: the listener\<close>

text \<open>
  The handlers of \<^verbatim>\<open>ListenOptions\<close> are interface values; the model keeps whether each
  is non-nil, and a call of a handler is an event of the trace.
\<close>

record ListenOptions =
  Network :: ProtocolList
  Address :: Addr
  Port :: nat
  Family :: string
  Interface :: string
  ReuseAddr :: bool
  TFO :: bool
  MPTCP :: bool
  UDPFragment :: bool
  UDPBufferSize :: int
  PacketHandler :: bool
  PacketHandlerOOb :: bool
  ConnHandler :: bool

text \<open>
  The fields of \<^verbatim>\<open>Listener\<close> that \<^verbatim>\<open>Start\<close> and the loops read or write: the options and
  the two sockets, \<open>None\<close> for \<^verbatim>\<open>nil\<close>.  A socket is the handle the operating system
  returned.
\<close>

record Listener =
  options :: ListenOptions
  udpConn :: "nat option"
  tcpListener :: "nat option"

definition NewListener :: "ListenOptions \<Rightarrow> Listener" where
  "NewListener opts = \<lparr>options = opts, udpConn = None, tcpListener = None\<rparr>"

text \<open>\<^verbatim>\<open>net.ListenConfig\<close> as the two functions fill it in.\<close>

datatype control = BindToInterface string | CtlReuseAddr | DisableUDPFragment | RoutingMark nat

record ListenConfig =
  Control :: "control list"
  KeepAliveEnable :: bool
  MultipathTCP :: bool

text \<open>
  The operating system, as far as binding goes: what \<^verbatim>\<open>Listen\<close> (through the TFO
  wrapper when the flag is set) and \<^verbatim>\<open>ListenPacket\<close> return for a configuration, a
  network and an address.
\<close>

record net_env =
  os_Listen :: "ListenConfig \<Rightarrow> bool \<Rightarrow> string \<Rightarrow> AddrPort \<Rightarrow> go_error + nat"
  os_ListenPacket :: "ListenConfig \<Rightarrow> string \<Rightarrow> AddrPort \<Rightarrow> go_error + nat"

definition FamilyIPv4 :: string where "FamilyIPv4 = ''4''"
definition FamilyIPv6 :: string where "FamilyIPv6 = ''6''"

definition family_network :: "string \<Rightarrow> string \<Rightarrow> string" where
  "family_network proto family =
     (if family = FamilyIPv6 then proto @ FamilyIPv6
      else if family = FamilyIPv4 then proto @ FamilyIPv4
      else proto)"

definition udp_listenConfig :: "ListenOptions \<Rightarrow> ListenConfig" where
  "udp_listenConfig opts =
     \<lparr>Control =
        (if Interface opts = '''' then [] else [BindToInterface (Interface opts)]) @
        (if ReuseAddr opts then [CtlReuseAddr] else []) @
        (if UDPFragment opts then [] else [DisableUDPFragment]),
      KeepAliveEnable = False,
      MultipathTCP = False\<rparr>"

definition tcp_listenConfig :: "ListenOptions \<Rightarrow> ListenConfig" where
  "tcp_listenConfig opts =
     \<lparr>Control =
        (if Interface opts = '''' then [] else [BindToInterface (Interface opts)]) @
        (if ReuseAddr opts then [CtlReuseAddr] else []),
      KeepAliveEnable = True,
      MultipathTCP = MPTCP opts\<rparr>"

definition ListenUDP :: "net_env \<Rightarrow> Listener \<Rightarrow> Listener \<times> (go_error + nat)" where
  "ListenUDP env l =
     (let opts = options l;
          bindAddress = (Address opts, Port opts);
          network = family_network ProtocolUDP (Family opts)
      in case os_ListenPacket env (udp_listenConfig opts) network bindAddress of
           Inl err \<Rightarrow> (l, Inl (Wrap ''listen'' err))
         | Inr packetConn \<Rightarrow> (l\<lparr>udpConn := Some packetConn\<rparr>, Inr packetConn))"

definition ListenTCP :: "net_env \<Rightarrow> Listener \<Rightarrow> Listener \<times> (go_error + nat)" where
  "ListenTCP env l =
     (let opts = options l;
          bindAddress = (Address opts, Port opts);
          network = family_network ProtocolTCP (Family opts)
      in case os_Listen env (tcp_listenConfig opts) (TFO opts) network bindAddress of
           Inl err \<Rightarrow> (l, Inl (Wrap ''listen'' err))
         | Inr listener \<Rightarrow> (l\<lparr>tcpListener := Some listener\<rparr>, Inr listener))"

text \<open>
  What \<^verbatim>\<open>Start\<close> does besides returning: the log lines (message and the socket whose
  address is printed) and the loops it spawns.
\<close>

datatype start_event =
    LogInfo string nat
  | GoLoopTcp
  | GoLoopUdpIn
  | GoLoopUdpInOOb

text \<open>A call returns, or panics (a nil dereference, a nil handler).\<close>

datatype 'a outcome = Return 'a | Panic string

text \<open>
  The UDP half of \<^verbatim>\<open>Start\<close>.  The log line after the bind reads
  \<^verbatim>\<open>l.tcpListener.Addr()\<close>: with \<^verbatim>\<open>tcpListener\<close> nil the call panics.
\<close>

definition Start_udp ::
  "net_env \<Rightarrow> Listener \<Rightarrow> start_event list \<Rightarrow> Listener \<times> start_event list \<times> go_error option outcome"
where
  "Start_udp env l evs =
     (if Contain (Network (options l)) ProtocolUDP then
        (case ListenUDP env l of
           (l1, Inl err) \<Rightarrow> (l1, evs, Return (Some err))
         | (l1, Inr c) \<Rightarrow>
             (let evs1 = evs @ [if PacketHandlerOOb (options l1) then GoLoopUdpInOOb else GoLoopUdpIn]
              in case tcpListener l1 of
                   None \<Rightarrow> (l1, evs1, Panic ''invalid memory address or nil pointer dereference'')
                 | Some t \<Rightarrow> (l1, evs1 @ [LogInfo ''new udp server started at'' t], Return None)))
      else (l, evs, Return None))"

definition Start ::
  "net_env \<Rightarrow> Listener \<Rightarrow> Listener \<times> start_event list \<times> go_error option outcome"
where
  "Start env l =
     (if Contain (Network (options l)) ProtocolTCP then
        (case ListenTCP env l of
           (l1, Inl err) \<Rightarrow> (l1, [], Return (Some err))
         | (l1, Inr t0) \<Rightarrow>
             (case tcpListener l1 of
                None \<Rightarrow> (l1, [], Panic ''invalid memory address or nil pointer dereference'')
              | Some t \<Rightarrow> Start_udp env l1 [LogInfo ''new tcp server started at'' t, GoLoopTcp]))
      else Start_udp env l [])"

text \<open>
  The receive loops.  A read of the socket either fails, and then the loop asks whether
  the context is done, or delivers a datagram; the reads a loop sees are a script, and a
  loop that has consumed its script is blocked in the next read.
\<close>

datatype 'a read_result = ReadOK 'a | ReadErr go_error bool

datatype loop_event =
    LogError string go_error
  | LogWarn string
  | HandlePacket "byte list" AddrPort
  | HandlePacketOOb "byte list" "byte list" AddrPort

datatype loop_status = Returned | Blocked | Panicked string

text \<open>The body of \<^verbatim>\<open>loopUdpIn\<close>; \<open>bufsize\<close> is the length of \<^verbatim>\<open>buf\<close>.\<close>

fun loopUdpIn_body ::
  "bool \<Rightarrow> nat \<Rightarrow> (byte list \<times> AddrPort) read_result list \<Rightarrow> loop_event list \<times> loop_status"
where
  "loopUdpIn_body handler bufsize [] = ([], Blocked)"
| "loopUdpIn_body handler bufsize (ReadErr err done # rs) =
     (if done then ([], Returned)
      else (case loopUdpIn_body handler bufsize rs of
              (evs, st) \<Rightarrow> (LogError ''read udp message'' err # evs, st)))"
| "loopUdpIn_body handler bufsize (ReadOK (p, remote) # rs) =
     (if handler then
        (case loopUdpIn_body handler bufsize rs of
           (evs, st) \<Rightarrow> (HandlePacket (take bufsize p) remote # evs, st))
      else ([], Panicked ''invalid memory address or nil pointer dereference''))"

definition loopUdpIn ::
  "Listener \<Rightarrow> (byte list \<times> AddrPort) read_result list \<Rightarrow> loop_event list \<times> loop_status"
where
  "loopUdpIn l reads =
     (if UDPBufferSize (options l) < 0 then ([], Panicked ''makeslice: len out of range'')
      else if udpConn l = None then ([], Returned)
      else loopUdpIn_body (PacketHandler (options l)) (nat (UDPBufferSize (options l))) reads)"

text \<open>The body of \<^verbatim>\<open>loopUdpInOOb\<close>; the out-of-band buffer has 4096 bytes.\<close>

fun loopUdpInOOb_body ::
  "bool \<Rightarrow> nat \<Rightarrow> (byte list \<times> byte list \<times> AddrPort) read_result list \<Rightarrow>
   loop_event list \<times> loop_status"
where
  "loopUdpInOOb_body handler bufsize [] = ([], Blocked)"
| "loopUdpInOOb_body handler bufsize (ReadErr err done # rs) =
     (if done then ([], Returned)
      else (case loopUdpInOOb_body handler bufsize rs of
              (evs, st) \<Rightarrow> (LogError ''read udp message'' err # evs, st)))"
| "loopUdpInOOb_body handler bufsize (ReadOK (p, oob, remote) # rs) =
     (if length (take bufsize p) = 0 then
        (case loopUdpInOOb_body handler bufsize rs of
           (evs, st) \<Rightarrow> (LogWarn ''read a zero size udp message without error'' # evs, st))
      else if handler then
        (case loopUdpInOOb_body handler bufsize rs of
           (evs, st) \<Rightarrow> (HandlePacketOOb (take 4096 oob) (take bufsize p) remote # evs, st))
      else ([], Panicked ''invalid memory address or nil pointer dereference''))"

definition loopUdpInOOb ::
  "Listener \<Rightarrow> (byte list \<times> byte list \<times> AddrPort) read_result list \<Rightarrow>
   loop_event list \<times> loop_status"
where
  "loopUdpInOOb l reads =
     (if UDPBufferSize (options l) < 0 then ([], Panicked ''makeslice: len out of range'')
      else if udpConn l = None then ([], Returned)
      else loopUdpInOOb_body (PacketHandlerOOb (options l)) (nat (UDPBufferSize (options l))) reads)"

section \<open>networks/resolver: strategies, the system resolver, the raw client\<close>

text \<open>\<^verbatim>\<open>type Strategy uint8\<close> with its constants; \<^verbatim>\<open>IsValid\<close> compares with \<^verbatim>\<open>strategyMax\<close>.\<close>

type_synonym Strategy = nat

definition StrategyDefault :: Strategy where "StrategyDefault = 0"
definition StrategyPreferIPv4 :: Strategy where "StrategyPreferIPv4 = 1"
definition StrategyPreferIPv6 :: Strategy where "StrategyPreferIPv6 = 2"
definition StrategyIPv4Only :: Strategy where "StrategyIPv4Only = 3"
definition StrategyIPv6Only :: Strategy where "StrategyIPv6Only = 4"
definition strategyMax :: Strategy where "strategyMax = 5"

definition Strategy_IsValid :: "Strategy \<Rightarrow> bool" where
  "Strategy_IsValid s = (s < strategyMax)"

text \<open>
  The built-in \<^verbatim>\<open>copy(dst, src)\<close>: it copies as many elements as the shorter of the
  two slices has, and leaves the length of \<^verbatim>\<open>dst\<close> as it is.
\<close>

definition go_copy :: "'a list \<Rightarrow> 'a list \<Rightarrow> 'a list" where
  "go_copy dst src =
     (let n = min (length dst) (length src) in take n src @ drop n dst)"

text \<open>
  \<^verbatim>\<open>rand.Shuffle(n, swap)\<close> with the swap function of \<^verbatim>\<open>randomSortAddresses\<close>: for
  \<open>i\<close> from \<open>n - 1\<close> down to \<open>1\<close> it swaps the elements at \<open>i\<close> and at a random
  \<open>j < i + 1\<close>.  The generator is a function from the bound to the number drawn.
\<close>

definition swap_elems :: "'a list \<Rightarrow> nat \<Rightarrow> nat \<Rightarrow> 'a list" where
  "swap_elems xs i j = xs[i := xs ! j, j := xs ! i]"

fun Shuffle_from :: "(nat \<Rightarrow> nat) \<Rightarrow> nat \<Rightarrow> 'a list \<Rightarrow> 'a list" where
  "Shuffle_from rnd 0 xs = xs"
| "Shuffle_from rnd (Suc k) xs =
     Shuffle_from rnd k (swap_elems xs (Suc k) (rnd (Suc (Suc k)) mod Suc (Suc k)))"

definition Shuffle :: "(nat \<Rightarrow> nat) \<Rightarrow> nat \<Rightarrow> 'a list \<Rightarrow> 'a list" where
  "Shuffle rnd n xs = Shuffle_from rnd (n - 1) xs"

text \<open>
  \<^verbatim>\<open>randomSortAddresses\<close>.  \<^verbatim>\<open>var copied []netip.Addr\<close> declares a nil slice, of length
  zero, and that slice is the destination of the copy.
\<close>

definition randomSortAddresses :: "(nat \<Rightarrow> nat) \<Rightarrow> Addr list \<Rightarrow> Addr list" where
  "randomSortAddresses rnd raw =
     (if length raw \<le> 1 then raw
      else (let copied = go_copy [] raw
            in Shuffle rnd (length copied) copied))"

text \<open>
  \<^verbatim>\<open>netip.AddrFromSlice\<close>: four bytes are an IPv4 address, sixteen an IPv6 address, any
  other length is refused.
\<close>

definition bytes_value :: "byte list \<Rightarrow> nat" where
  "bytes_value bs = foldl (\<lambda>a b. 256 * a + unat b) 0 bs"

definition AddrFromSlice :: "byte list \<Rightarrow> Addr option" where
  "AddrFromSlice bs =
     (if length bs = 4 then Some (Addr4 (bytes_value bs))
      else if length bs = 16 then Some (Addr6 (bytes_value bs) '''')
      else None)"

text \<open>
  The loop of \<^verbatim>\<open>SystemResolver.Lookup\<close> over the answer of the host lookup, appending
  to \<open>A\<close> and \<open>AAAA\<close>.
\<close>

fun Lookup_collect ::
  "Strategy \<Rightarrow> byte list list \<Rightarrow> Addr list \<Rightarrow> Addr list \<Rightarrow> Addr list \<times> Addr list"
where
  "Lookup_collect strategy [] A AAAA = (A, AAAA)"
| "Lookup_collect strategy (ip # answer) A AAAA =
     (case AddrFromSlice ip of
        None \<Rightarrow> Lookup_collect strategy answer A AAAA
      | Some netipip \<Rightarrow>
          (if IsValid netipip then
             (let A1 = (if strategy = StrategyIPv6Only then A
                        else if Is4 netipip then A @ [netipip] else A);
                  AAAA1 = (if strategy = StrategyIPv4Only then AAAA
                           else if Is6 netipip then AAAA @ [netipip] else AAAA)
              in Lookup_collect strategy answer A1 AAAA1)
           else Lookup_collect strategy answer A AAAA))"

text \<open>
  \<^verbatim>\<open>SystemResolver.Lookup\<close>; \<open>answer\<close> is what \<^verbatim>\<open>net.DefaultResolver.LookupIPAddr\<close>
  returns for the name.
\<close>

definition SystemResolver_Lookup ::
  "(nat \<Rightarrow> nat) \<Rightarrow> go_error + byte list list \<Rightarrow> Strategy \<Rightarrow> go_error + Addr list \<times> Addr list"
where
  "SystemResolver_Lookup rnd answer strategy =
     (if Strategy_IsValid strategy then
        (case answer of
           Inl err \<Rightarrow> Inl err
         | Inr ips \<Rightarrow>
             (case Lookup_collect strategy ips [] [] of
                (A, AAAA) \<Rightarrow> Inr (randomSortAddresses rnd A, randomSortAddresses rnd AAAA)))
      else Inl (ErrorString ''network: unknown dns strategy''))"

type_synonym Duration = int

definition Second :: Duration where "Second = 1000000000"

definition DialerDefaultTimeout :: Duration where "DialerDefaultTimeout = 5 * Second"


section \<open>networks/dialer: the default dialer\<close>

datatype resolver = SystemResolver | CachedResolver string

record DialConfig =
  Resolver :: "resolver option"
  ResolveStrategy :: Strategy
  Timeout :: Duration
  Interface :: string
  BindAddress4 :: Addr
  BindAddress6 :: Addr
  FwMark :: nat
  ReuseAddr :: bool
  TFO :: bool
  MPTCP :: bool
  UDPFragment :: bool

text \<open>\<^verbatim>\<open>net.Dialer\<close> and \<^verbatim>\<open>tfo.Dialer\<close>, with the fields \<^verbatim>\<open>NewDefault\<close> sets.\<close>

record net_Dialer =
  Control :: "control list"
  Timeout :: Duration
  KeepAliveEnable :: bool
  LocalAddr :: "Addr option"
  MultipathTCP :: bool

record tfo_Dialer =
  Dialer :: net_Dialer
  DisableTFO :: bool
  Fallback :: bool

definition zero_Dialer :: net_Dialer where
  "zero_Dialer = \<lparr>Control = [], Timeout = 0, KeepAliveEnable = False, LocalAddr = None,
                  MultipathTCP = False\<rparr>"

text \<open>
  \<^verbatim>\<open>DefaultDialer\<close>.  \<open>udpAddr4\<close> and \<open>udpAddr6\<close> hold the address whose text the
  source stores (\<open>AddrZero\<close> for the empty string).
\<close>

record DefaultDialer =
  defaultDialer :: net_Dialer
  dialer4 :: tfo_Dialer
  dialer6 :: tfo_Dialer
  udpDialer4 :: net_Dialer
  udpDialer6 :: net_Dialer
  udpAddr4 :: Addr
  udpAddr6 :: Addr
  resolver :: resolver
  resolveStrategy :: Strategy

text \<open>\<^verbatim>\<open>cmp.Or\<close> on two durations: the first that is not zero.\<close>

definition cmp_Or :: "Duration \<Rightarrow> Duration \<Rightarrow> Duration" where
  "cmp_Or a b = (if a = 0 then b else a)"

text \<open>
  \<^verbatim>\<open>bind.AsSlice()\<close> is the bytes of the address, without its zone; the local address
  of a dialer is built from those bytes, so it is the address with the zone dropped.
\<close>

fun AsSlice_ip :: "Addr \<Rightarrow> Addr" where
  "AsSlice_ip (Addr6 a z) = Addr6 a ''''"
| "AsSlice_ip a = a"

text \<open>
  \<^verbatim>\<open>NewDefault\<close>; \<open>goos\<close> is \<^verbatim>\<open>runtime.GOOS\<close>.  The \<^verbatim>\<open>net.ListenConfig\<close> the source
  fills in beside the dialer is not part of the value returned and is left out.  The
  four family dialers start from the zero \<^verbatim>\<open>net.Dialer\<close>.
\<close>

definition NewDefault :: "string \<Rightarrow> DialConfig \<Rightarrow> go_error + DefaultDialer" where
  "NewDefault goos config =
     (let control1 = (if DialConfig.Interface config = '''' then []
                      else [BindToInterface (DialConfig.Interface config)]);
          resolver1 = (case DialConfig.Resolver config of
                         None \<Rightarrow> SystemResolver | Some r \<Rightarrow> r)
      in if DialConfig.FwMark config = 0 \<or> goos = ''linux'' then
           (let control2 = control1 @
                  (if DialConfig.FwMark config = 0 then []
                   else [RoutingMark (DialConfig.FwMark config)]);
                control3 = control2 @
                  (if DialConfig.UDPFragment config then [] else [DisableUDPFragment]);
                dialer = \<lparr>Control = control3,
                          Timeout = cmp_Or (DialConfig.Timeout config) DialerDefaultTimeout,
                          KeepAliveEnable = True,
                          LocalAddr = None,
                          MultipathTCP = DialConfig.MPTCP config\<rparr>;
                bind4 = DialConfig.BindAddress4 config;
                bind6 = DialConfig.BindAddress6 config;
                local4 = (if IsValid bind4 then Some (AsSlice_ip bind4) else None);
                local6 = (if IsValid bind6 then Some (AsSlice_ip bind6) else None)
            in Inr \<lparr>defaultDialer = dialer,
                    dialer4 = \<lparr>Dialer = zero_Dialer\<lparr>LocalAddr := local4\<rparr>,
                               DisableTFO = (\<not> DialConfig.TFO config), Fallback = False\<rparr>,
                    dialer6 = \<lparr>Dialer = zero_Dialer\<lparr>LocalAddr := local6\<rparr>,
                               DisableTFO = (\<not> DialConfig.TFO config), Fallback = False\<rparr>,
                    udpDialer4 = zero_Dialer\<lparr>LocalAddr := local4\<rparr>,
                    udpDialer6 = zero_Dialer\<lparr>LocalAddr := local6\<rparr>,
                    udpAddr4 = (if IsValid bind4 then bind4 else AddrZero),
                    udpAddr6 = (if IsValid bind6 then bind6 else AddrZero),
                    resolver = resolver1,
                    resolveStrategy = DialConfig.ResolveStrategy config\<rparr>)
         else Inl (ErrorString ''`routing_mark` is only supported on Linux''))"

definition filterAddressByNetwork :: "Network \<Rightarrow> Addr list \<Rightarrow> Addr list" where
  "filterAddressByNetwork network addr =
     (if Version network = NetworkVersionDual then filter (\<lambda>it. IsValid it) addr
      else if Version network = NetworkVersion4 then filter (\<lambda>it. IsValid it \<and> Is4 it) addr
      else if Version network = NetworkVersion6 then filter (\<lambda>it. IsValid it \<and> Is6 it) addr
      else addr)"

text \<open>
  A dial as the loop of \<^verbatim>\<open>DialSerial\<close> issues it: through a \<^verbatim>\<open>tfo.Dialer\<close> with the
  optional first bytes, or through a \<^verbatim>\<open>net.Dialer\<close>; the target is an address with the
  port, or, in the default case of the protocol switch, the address alone.
\<close>

datatype dial_target = HostPort Addr nat | HostOnly Addr

datatype dial_call =
    DialTFO tfo_Dialer string dial_target "byte list option"
  | DialNet net_Dialer string dial_target

text \<open>Which field of the \<^verbatim>\<open>DefaultDialer\<close> a pointer selected in the loop refers to.\<close>

datatype dialer_field =
    F_dialer4 | F_dialer6 | F_udpDialer4 | F_udpDialer6 | F_defaultDialer | F_defaultDialer_noTFO

text \<open>
  The environment of a dial: whether the context is done before the attempt with a
  given index, the error of a done context, and what the network answers to a dial.
\<close>

record dial_env =
  ctx_Done :: "nat \<Rightarrow> bool"
  ctx_Err :: go_error
  connect :: "dial_call \<Rightarrow> go_error + nat"

definition tfoInitData :: "byte list" where
  "tfoInitData = [0]"

text \<open>
  The first switch of the loop body: the pair \<^verbatim>\<open>(udpDialer, tcpDialer)\<close> chosen for a
  candidate, each with the field it points to.
\<close>

definition select_dialers ::
  "DefaultDialer \<Rightarrow> Addr \<Rightarrow> (dialer_field \<times> net_Dialer) \<times> (dialer_field \<times> tfo_Dialer)"
where
  "select_dialers d addr =
     (if Is4 addr then ((F_udpDialer4, udpDialer4 d), (F_dialer4, dialer4 d))
      else if Is6 addr then ((F_udpDialer4, udpDialer4 d), (F_dialer4, dialer4 d))
      else ((F_defaultDialer, defaultDialer d),
            (F_defaultDialer_noTFO,
             \<lparr>Dialer = defaultDialer d, DisableTFO = True, Fallback = False\<rparr>)))"

text \<open>The second switch: the dial made for the candidate, with the field it goes through.\<close>

definition dial_of ::
  "DefaultDialer \<Rightarrow> Network \<Rightarrow> string \<Rightarrow> Addr \<Rightarrow> nat \<Rightarrow> dialer_field \<times> dial_call"
where
  "dial_of d nn network addr port =
     (case select_dialers d addr of
        ((uf, udpDialer), (tf, tcpDialer)) \<Rightarrow>
          (if Protocol nn = ProtocolUDP then (uf, DialNet udpDialer network (HostPort addr port))
           else if Protocol nn = ProtocolTCP then
             (if DisableTFO tcpDialer then (tf, DialTFO tcpDialer network (HostPort addr port) None)
              else (tf, DialTFO tcpDialer network (HostPort addr port) (Some tfoInitData)))
           else (F_defaultDialer, DialNet (defaultDialer d) network (HostOnly addr))))"

text \<open>
  The loop of \<^verbatim>\<open>DialSerial\<close> over the available addresses; \<open>i\<close> counts the attempts
  made, \<open>lastErr\<close> is the error of the last one.  The result comes with the attempts
  made, in order.
\<close>

fun DialSerial_loop ::
  "dial_env \<Rightarrow> DefaultDialer \<Rightarrow> Network \<Rightarrow> string \<Rightarrow> nat \<Rightarrow> nat \<Rightarrow> go_error option \<Rightarrow>
   Addr list \<Rightarrow> (go_error + nat) \<times> (dialer_field \<times> dial_call) list"
where
  "DialSerial_loop env d nn network port i lastErr [] =
     (case lastErr of
        None \<Rightarrow> (Inl (ErrorString ''dialer: all addresses failed, last error: %!w(<nil>)''), [])
      | Some err \<Rightarrow> (Inl (Wrap ''dialer: all addresses failed, last error'' err), []))"
| "DialSerial_loop env d nn network port i lastErr (addr # rest) =
     (if ctx_Done env i then (Inl (ctx_Err env), [])
      else (let call = dial_of d nn network addr port in
            case connect env (snd call) of
              Inr conn \<Rightarrow> (Inr conn, [call])
            | Inl err \<Rightarrow>
                (case DialSerial_loop env d nn network port (Suc i) (Some err) rest of
                   (res, calls) \<Rightarrow> (res, call # calls))))"

definition DialSerial ::
  "dial_env \<Rightarrow> DefaultDialer \<Rightarrow> string \<Rightarrow> Addr list \<Rightarrow> nat \<Rightarrow>
   (go_error + nat) \<times> (dialer_field \<times> dial_call) list"
where
  "DialSerial env d network addresses port =
     (if length addresses = 0 then (Inl (ErrorString ''dialer: no addresses to dial''), [])
      else (case ParseNetwork network of
              Inl networkErr \<Rightarrow> (Inl networkErr, [])
            | Inr nn \<Rightarrow>
                (let availableAddress = filterAddressByNetwork nn addresses in
                 if length availableAddress = 0 then
                   (Inl (ErrorString (''dialer: no available address found for network: '' @ network)), [])
                 else DialSerial_loop env d nn network port 0 None availableAddress)))"

section \<open>config.go: bind and remote configurations\<close>

text \<open>
  The definitions follow the current text of \<^verbatim>\<open>config.go\<close> (the one whose \<^verbatim>\<open>valid\<close>
  picks the unspecified address by family).
\<close>

record BindConfig =
  Raw :: string
  Network :: Protocol
  Listen :: Addr
  Port :: nat
  Remote :: string
  Name :: string
  Family :: string
  Interface :: string
  ReuseAddr :: bool
  TFO :: bool
  MPTCP :: bool
  UDPKeepaliveTTL :: Duration
  UDPBufferSize :: int
  UDPFragment :: bool

definition IPv4Unspecified :: Addr where "IPv4Unspecified = Addr4 0"
definition IPv6Unspecified :: Addr where "IPv6Unspecified = Addr6 0 ''''"

definition NewDefaultBind :: BindConfig where
  "NewDefaultBind =
     \<lparr>Raw = '''', Network = '''', Listen = AddrZero, Port = 0, Remote = '''', Name = '''',
      Family = '''', Interface = '''', ReuseAddr = False, TFO = False, MPTCP = False,
      UDPKeepaliveTTL = 60 * Second, UDPBufferSize = 65507, UDPFragment = False\<rparr>"

text \<open>
  \<^verbatim>\<open>BindConfig.valid\<close>.  The receiver is a pointer: the configuration comes back with
  the defaults written into it, beside the error (\<open>None\<close> for \<^verbatim>\<open>nil\<close>).
\<close>

definition BindConfig_valid :: "BindConfig \<Rightarrow> BindConfig \<times> go_error option" where
  "BindConfig_valid c =
     (let c1 = (if BindConfig.Network c = '''' then c\<lparr>BindConfig.Network := ProtocolTCPUDP\<rparr> else c)
      in if IsValid (Listen c1) \<and> Is6 (Listen c1) \<and> BindConfig.Family c1 = FamilyIPv4 then
           (c1, Some (ErrorString ''bind: listen a ipv6 address with ipv4 family''))
         else if IsValid (Listen c1) \<and> Is4 (Listen c1) \<and> BindConfig.Family c1 = FamilyIPv6 then
           (c1, Some (ErrorString ''bind: listen a ipv4 address with ipv6 family''))
         else
           (let c2 = (if IsValid (Listen c1) then c1
                      else if BindConfig.Family c1 = FamilyIPv4 then c1\<lparr>Listen := IPv4Unspecified\<rparr>
                      else c1\<lparr>Listen := IPv6Unspecified\<rparr>)
            in if BindConfig.Port c2 = 0 then (c2, Some (ErrorString ''bind: no port specified''))
               else (c2, None)))"

text \<open>\<^verbatim>\<open>strconv.ParseUint(s, 10, bitSize)\<close> and \<^verbatim>\<open>strconv.ParseBool\<close>.\<close>

definition is_digit :: "char \<Rightarrow> bool" where
  "is_digit c = (c \<in> set ''0123456789'')"

definition digit_value :: "char \<Rightarrow> nat" where
  "digit_value c = of_char c - 48"

definition ParseUint :: "string \<Rightarrow> nat \<Rightarrow> go_error + nat" where
  "ParseUint s bitSize =
     (if s = [] then Inl (ErrorString ''invalid syntax'')
      else if list_all is_digit s then
        (let v = foldl (\<lambda>a c. 10 * a + digit_value c) 0 s in
         if v < 2 ^ bitSize then Inr v else Inl (ErrorString ''value out of range''))
      else Inl (ErrorString ''invalid syntax''))"

definition ParseBool :: "string \<Rightarrow> go_error + bool" where
  "ParseBool str =
     (if str \<in> set [''1'', ''t'', ''T'', ''TRUE'', ''true'', ''True''] then Inr True
      else if str \<in> set [''0'', ''f'', ''F'', ''FALSE'', ''false'', ''False''] then Inr False
      else Inl (ErrorString ''invalid syntax''))"

text \<open>
  What \<^verbatim>\<open>BindConfig.Parse\<close> reads of a parsed URL: \<^verbatim>\<open>Scheme\<close>, \<^verbatim>\<open>Hostname()\<close>,
  \<^verbatim>\<open>Port()\<close> and \<^verbatim>\<open>Query()\<close>, the latter as the pairs the \<^verbatim>\<open>range\<close> loop visits.
\<close>

record URL =
  Scheme :: string
  Hostname :: string
  Port :: string
  Query :: "(string \<times> string list) list"

text \<open>The library parsers \<^verbatim>\<open>Parse\<close> calls and this development does not define.\<close>

record parse_env =
  url_Parse :: "string \<Rightarrow> go_error + URL"
  ParseAddr :: "string \<Rightarrow> go_error + Addr"
  ParseDuration :: "string \<Rightarrow> go_error + Duration"
  Atoi :: "string \<Rightarrow> go_error + int"

text \<open>The loop of \<^verbatim>\<open>BindConfig.Parse\<close> over the query; \<open>val\<close> is the last value of a key.\<close>

fun BindConfig_Parse_query ::
  "parse_env \<Rightarrow> (string \<times> string list) list \<Rightarrow> BindConfig \<Rightarrow> BindConfig \<times> go_error option"
where
  "BindConfig_Parse_query env [] c = (c, None)"
| "BindConfig_Parse_query env ((k, v) # q) c =
     (if length v = 0 then BindConfig_Parse_query env q c
      else (let val = v ! (length v - 1) in
        if k = ''family'' then BindConfig_Parse_query env q (c\<lparr>BindConfig.Family := val\<rparr>)
        else if k = ''interface'' then BindConfig_Parse_query env q (c\<lparr>BindConfig.Interface := val\<rparr>)
        else if k = ''reuse_addr'' then
          (case ParseBool val of
             Inl err \<Rightarrow> (c, Some (ErrorString (''parse bind(reuse_addr): expected bool, got '' @ val)))
           | Inr ok \<Rightarrow> BindConfig_Parse_query env q (c\<lparr>BindConfig.ReuseAddr := ok\<rparr>))
        else if k = ''name'' then BindConfig_Parse_query env q (c\<lparr>BindConfig.Name := val\<rparr>)
        else if k = ''tfo'' then
          (case ParseBool val of
             Inl err \<Rightarrow> (c, Some (ErrorString (''parse bind(tfo): expected bool, got '' @ val)))
           | Inr ok \<Rightarrow> BindConfig_Parse_query env q (c\<lparr>BindConfig.TFO := ok\<rparr>))
        else if k = ''udp_ttl'' then
          (case ParseDuration env val of
             Inl err \<Rightarrow> (c, Some (Wrap ''parse bind(udp_ttl)'' err))
           | Inr duration \<Rightarrow> BindConfig_Parse_query env q (c\<lparr>UDPKeepaliveTTL := duration\<rparr>))
        else if k = ''remote'' then BindConfig_Parse_query env q (c\<lparr>Remote := val\<rparr>)
        else if k = ''udp_buffer_size'' then
          (case Atoi env val of
             Inl err \<Rightarrow> (c, Some (Wrap ''parse bind(udp_buffer_size)'' err))
           | Inr sz \<Rightarrow> BindConfig_Parse_query env q (c\<lparr>BindConfig.UDPBufferSize := sz\<rparr>))
        else if k = ''udp_fragment'' then
          (case ParseBool val of
             Inl err \<Rightarrow> (c, Some (ErrorString (''parse bind(udp_fragment): expected bool, got '' @ val)))
           | Inr ok \<Rightarrow> BindConfig_Parse_query env q (c\<lparr>BindConfig.UDPFragment := ok\<rparr>))
        else if k = ''mptcp'' then
          (case ParseBool val of
             Inl err \<Rightarrow> (c, Some (ErrorString (''parse bind(mptcp): expected bool, got '' @ val)))
           | Inr ok \<Rightarrow> BindConfig_Parse_query env q (c\<lparr>BindConfig.MPTCP := ok\<rparr>))
        else (c, Some (ErrorString (''parse bind: unknown option: '' @ k)))))"

text \<open>
  \<^verbatim>\<open>BindConfig.Parse\<close> from the parsed URL on: listen address, port, scheme, query,
  and \<^verbatim>\<open>valid\<close> last.
\<close>

definition BindConfig_Parse_url ::
  "parse_env \<Rightarrow> BindConfig \<Rightarrow> string \<Rightarrow> URL \<Rightarrow> BindConfig \<times> go_error option"
where
  "BindConfig_Parse_url env c s uu =
     (let c1 = c\<lparr>Raw := s\<rparr> in
      case (if Hostname uu = '''' then Inr AddrZero else ParseAddr env (Hostname uu)) of
        Inl err \<Rightarrow> (c1, Some (Wrap ''prase bind(listen)'' err))
      | Inr listenAddress \<Rightarrow>
          (let c2 = c1\<lparr>Listen := listenAddress\<rparr> in
           case (if URL.Port uu = '''' then Inr (BindConfig.Port c2) else ParseUint (URL.Port uu) 16) of
             Inl err \<Rightarrow> (c2, Some (Wrap ''parse bind(port)'' err))
           | Inr pp \<Rightarrow>
               (let c3 = c2\<lparr>BindConfig.Port := pp\<rparr>;
                    c4 = (if Scheme uu = '''' then c3
                          else c3\<lparr>BindConfig.Network := ParseProtocol (Scheme uu)\<rparr>)
                in case BindConfig_Parse_query env (Query uu) c4 of
                     (c5, Some err) \<Rightarrow> (c5, Some err)
                   | (c5, None) \<Rightarrow> BindConfig_valid c5)))"

definition BindConfig_Parse ::
  "parse_env \<Rightarrow> BindConfig \<Rightarrow> string \<Rightarrow> BindConfig \<times> go_error option"
where
  "BindConfig_Parse env c s =
     (if s = '''' then (c, Some (ErrorString ''parse bind: empty string''))
      else (case url_Parse env s of
              Inl err \<Rightarrow> (c, Some (Wrap ''parse bind'' err))
            | Inr uu \<Rightarrow> BindConfig_Parse_url env c s uu))"

record RemoteConfig =
  Raw :: string
  Name :: string
  Server :: string
  Port :: nat
  DNS :: string
  ResolveStrategy :: Strategy
  Timeout :: Duration
  ReuseAddr :: bool
  Interface :: string
  BindAddress4 :: Addr
  BindAddress6 :: Addr
  FwMark :: nat
  TFO :: bool
  MPTCP :: bool
  UDPFragment :: bool

section \<open>The supervisor and the forwarder\<close>

text \<open>\<^verbatim>\<open>net.JoinHostPort\<close>: a host with a colon is put in brackets.\<close>

definition JoinHostPort :: "string \<Rightarrow> string \<Rightarrow> string" where
  "JoinHostPort host port =
     (if CHR '':'' \<in> set host then ''['' @ host @ '']:'' @ port
      else host @ '':'' @ port)"

text \<open>
  The entries of \<^verbatim>\<open>nameToDialer\<close>, and the fields of \<^verbatim>\<open>Traffics\<close> the modelled functions
  use: the remotes of the configuration, the dialer table and the connection-track map
  of the UDP flows (client endpoint to upstream socket), with the set of sockets that
  have been closed.
\<close>

record dialer_entry =
  address :: string
  dialer :: DefaultDialer

record Traffics =
  config_Remote :: "RemoteConfig list"
  nameToDialer :: "string \<rightharpoonup> dialer_entry"
  udpConnTrack :: "AddrPort \<rightharpoonup> nat"
  closedConns :: "nat set"

definition NewTraffics :: "RemoteConfig list \<Rightarrow> Traffics" where
  "NewTraffics remotes =
     \<lparr>config_Remote = remotes, nameToDialer = Map.empty, udpConnTrack = Map.empty,
      closedConns = {}\<rparr>"

text \<open>The resolver and the \<^verbatim>\<open>DialConfig\<close> that \<^verbatim>\<open>initDialer\<close> builds for a remote.\<close>

definition remote_DialConfig :: "RemoteConfig \<Rightarrow> DialConfig" where
  "remote_DialConfig v =
     \<lparr>DialConfig.Resolver =
        Some (if DNS v = '''' then SystemResolver else CachedResolver (DNS v)),
      DialConfig.ResolveStrategy = RemoteConfig.ResolveStrategy v,
      DialConfig.Timeout = cmp_Or (RemoteConfig.Timeout v) DialerDefaultTimeout,
      DialConfig.Interface = RemoteConfig.Interface v,
      DialConfig.BindAddress4 = RemoteConfig.BindAddress4 v,
      DialConfig.BindAddress6 = RemoteConfig.BindAddress6 v,
      DialConfig.FwMark = RemoteConfig.FwMark v,
      DialConfig.ReuseAddr = RemoteConfig.ReuseAddr v,
      DialConfig.TFO = RemoteConfig.TFO v,
      DialConfig.MPTCP = RemoteConfig.MPTCP v,
      DialConfig.UDPFragment = RemoteConfig.UDPFragment v\<rparr>"

text \<open>
  The loop of \<^verbatim>\<open>initDialer\<close> over the remotes, on the table; it stops at the first
  error, with the table as filled so far.
\<close>

fun initDialer_loop ::
  "string \<Rightarrow> RemoteConfig list \<Rightarrow> (string \<rightharpoonup> dialer_entry) \<Rightarrow>
   (string \<rightharpoonup> dialer_entry) \<times> go_error option"
where
  "initDialer_loop goos [] tbl = (tbl, None)"
| "initDialer_loop goos (v # vs) tbl =
     (if RemoteConfig.Name v = '''' then
        (tbl, Some (ErrorString (''no name specified for '' @ Server v)))
      else (case tbl (RemoteConfig.Name v) of
              Some e \<Rightarrow> (tbl, Some (ErrorString (''duplicated remote name: '' @ RemoteConfig.Name v)))
            | None \<Rightarrow>
                (case NewDefault goos (remote_DialConfig v) of
                   Inl err \<Rightarrow> (tbl, Some err)
                 | Inr dd \<Rightarrow>
                     initDialer_loop goos vs
                       (tbl(RemoteConfig.Name v \<mapsto>
                          \<lparr>address = JoinHostPort (Server v) (FormatUint (RemoteConfig.Port v)),
                           dialer = dd\<rparr>)))))"

definition initDialer :: "string \<Rightarrow> Traffics \<Rightarrow> Traffics \<times> go_error option" where
  "initDialer goos t =
     (case initDialer_loop goos (config_Remote t) (nameToDialer t) of
        (tbl, err) \<Rightarrow> (t\<lparr>nameToDialer := tbl\<rparr>, err))"

text \<open>
  The test of the read error in \<^verbatim>\<open>newUdpLoop\<close>:
  \<^verbatim>\<open>errors.As(err, &ope) && errors.Is(ope.Err, syscall.ECONNREFUSED)\<close>.
\<close>

definition is_conn_refused :: "go_error \<Rightarrow> bool" where
  "is_conn_refused err =
     (case errors_As_OpError err of
        None \<Rightarrow> False
      | Some inner \<Rightarrow> errors_Is inner ECONNREFUSED)"

datatype flow_event =
    SetReadDeadline
  | WritePacket "byte list" AddrPort
  | LogDebug string

text \<open>
  The loop of \<^verbatim>\<open>newUdpLoop\<close> over the reads of the upstream socket, each an error or the
  bytes received.  \<open>fresh\<close> says that the iteration starts at the head of the
  \<^verbatim>\<open>for\<close>, where the deadline is set; after \<^verbatim>\<open>goto again\<close> it is not.  A loop that has
  consumed its reads is blocked in the next one.
\<close>

fun newUdpLoop_reads ::
  "bool \<Rightarrow> nat \<Rightarrow> AddrPort \<Rightarrow> (go_error + byte list) list \<Rightarrow> flow_event list \<times> loop_status"
where
  "newUdpLoop_reads fresh bufsize client [] =
     ((if fresh then [SetReadDeadline] else []), Blocked)"
| "newUdpLoop_reads fresh bufsize client (Inl err # rs) =
     (if is_conn_refused err then
        (case newUdpLoop_reads False bufsize client rs of
           (evs, st) \<Rightarrow> ((if fresh then [SetReadDeadline] else []) @ evs, st))
      else ((if fresh then [SetReadDeadline] else []), Returned))"
| "newUdpLoop_reads fresh bufsize client (Inr p # rs) =
     (case newUdpLoop_reads True bufsize client rs of
        (evs, st) \<Rightarrow>
          ((if fresh then [SetReadDeadline] else []) @
           (if length (take bufsize p) = 0 then [] else [WritePacket (take bufsize p) client]) @ evs,
           st))"

text \<open>
  \<^verbatim>\<open>newUdpLoop\<close>: the deferred function runs when the loop returns (or when the
  allocation of the buffer panics); it deletes the entry of the client and closes the
  socket.
\<close>

definition newUdpLoop_deferred :: "Traffics \<Rightarrow> AddrPort \<Rightarrow> nat \<Rightarrow> Traffics" where
  "newUdpLoop_deferred t client proxyConn =
     t\<lparr>udpConnTrack := (udpConnTrack t)(client := None),
       closedConns := insert proxyConn (closedConns t)\<rparr>"

definition newUdpLoop ::
  "Traffics \<Rightarrow> AddrPort \<Rightarrow> nat \<Rightarrow> BindConfig \<Rightarrow> (go_error + byte list) list \<Rightarrow>
   Traffics \<times> flow_event list \<times> loop_status"
where
  "newUdpLoop t client proxyConn config reads =
     (if BindConfig.UDPBufferSize config < 0 then
        (newUdpLoop_deferred t client proxyConn, [LogDebug ''udp connection closed''],
         Panicked ''makeslice: len out of range'')
      else (case newUdpLoop_reads True (nat (BindConfig.UDPBufferSize config)) client reads of
              (evs, Returned) \<Rightarrow>
                (newUdpLoop_deferred t client proxyConn,
                 evs @ [LogDebug ''udp connection closed''], Returned)
            | (evs, st) \<Rightarrow> (t, evs, st)))"

section \<open>Concrete configurations\<close>

text \<open>
  Inputs at which the properties below are evaluated: a listener for UDP only and one
  for TCP only, an operating system in which every bind succeeds, a dialer
  configuration with an IPv6 source address, and a network in which every dial succeeds.
\<close>

definition udp_only_options :: ListenOptions where
  "udp_only_options =
     \<lparr>ListenOptions.Network = ToProtocolList ProtocolUDP,
      ListenOptions.Address = Addr4 2130706433, ListenOptions.Port = 5353,
      ListenOptions.Family = '''', ListenOptions.Interface = '''',
      ListenOptions.ReuseAddr = False, ListenOptions.TFO = False, ListenOptions.MPTCP = False,
      ListenOptions.UDPFragment = False, ListenOptions.UDPBufferSize = 65507,
      ListenOptions.PacketHandler = True, ListenOptions.PacketHandlerOOb = False,
      ListenOptions.ConnHandler = False\<rparr>"

definition tcp_only_options :: ListenOptions where
  "tcp_only_options =
     udp_only_options\<lparr>ListenOptions.Network := ToProtocolList ProtocolTCP,
       ListenOptions.Port := 0, ListenOptions.PacketHandler := False,
       ListenOptions.ConnHandler := True\<rparr>"

definition bind_ok_env :: net_env where
  "bind_ok_env =
     \<lparr>os_Listen = (\<lambda>cfg tfo network a. Inr 3),
      os_ListenPacket = (\<lambda>cfg network a. Inr 4)\<rparr>"

definition started_tcp_listener :: Listener where
  "started_tcp_listener = (NewListener tcp_only_options)\<lparr>tcpListener := Some 3\<rparr>"

definition started_udp_listener :: Listener where
  "started_udp_listener = (NewListener udp_only_options)\<lparr>udpConn := Some 4\<rparr>"

definition oob_udp_listener :: Listener where
  "oob_udp_listener =
     \<lparr>options = udp_only_options\<lparr>ListenOptions.PacketHandlerOOb := True\<rparr>,
      udpConn = Some 4, tcpListener = None\<rparr>"

text \<open>
  A listener for TCP and UDP, the listener a first \<open>Start\<close> leaves of it when every
  bind succeeds, and an operating system that answers later binds with other sockets.
\<close>

definition both_options :: ListenOptions where
  "both_options =
     udp_only_options\<lparr>ListenOptions.Network := ToProtocolList ProtocolTCPUDP,
       ListenOptions.Port := 0, ListenOptions.ConnHandler := True\<rparr>"

definition started_both_listener :: Listener where
  "started_both_listener =
     (NewListener both_options)\<lparr>tcpListener := Some 3, udpConn := Some 4\<rparr>"

definition rebind_env :: net_env where
  "rebind_env =
     \<lparr>os_Listen = (\<lambda>cfg tfo network a. Inr 5),
      os_ListenPacket = (\<lambda>cfg network a. Inr 6)\<rparr>"

definition bind6_config :: DialConfig where
  "bind6_config =
     \<lparr>DialConfig.Resolver = None, DialConfig.ResolveStrategy = StrategyDefault,
      DialConfig.Timeout = 0, DialConfig.Interface = '''', DialConfig.BindAddress4 = AddrZero,
      DialConfig.BindAddress6 = Addr6 1 '''', DialConfig.FwMark = 0,
      DialConfig.ReuseAddr = False, DialConfig.TFO = False, DialConfig.MPTCP = False,
      DialConfig.UDPFragment = False\<rparr>"

definition connect_ok_env :: dial_env where
  "connect_ok_env =
     \<lparr>ctx_Done = (\<lambda>i. False), ctx_Err = DeadlineExceeded, connect = (\<lambda>c. Inr 7)\<rparr>"

definition flow_client :: AddrPort where
  "flow_client = (Addr4 167772161, 40000)"

definition flow_traffics :: Traffics where
  "flow_traffics = (NewTraffics [])\<lparr>udpConnTrack := [flow_client \<mapsto> 9]\<rparr>"

definition dns_remote :: RemoteConfig where
  "dns_remote =
     \<lparr>RemoteConfig.Raw = '''', RemoteConfig.Name = ''dns'', RemoteConfig.Server = ''1.1.1.1'',
      RemoteConfig.Port = 53, RemoteConfig.DNS = '''',
      RemoteConfig.ResolveStrategy = StrategyDefault, RemoteConfig.Timeout = 10 * Second,
      RemoteConfig.ReuseAddr = False, RemoteConfig.Interface = '''',
      RemoteConfig.BindAddress4 = AddrZero, RemoteConfig.BindAddress6 = AddrZero,
      RemoteConfig.FwMark = 0, RemoteConfig.TFO = False, RemoteConfig.MPTCP = False,
      RemoteConfig.UDPFragment = False\<rparr>"

definition web_remote :: RemoteConfig where
  "web_remote =
     dns_remote\<lparr>RemoteConfig.Name := ''web'', RemoteConfig.Server := ''::1'',
       RemoteConfig.Port := 8080\<rparr>"

text \<open>
  A bind URL with the scheme \<open>foo\<close>, as \<^verbatim>\<open>url.Parse\<close> splits it, its twin with the scheme
  \<open>tcp+udp\<close>, and library parsers that know these two strings.
\<close>

definition demo_url :: URL where
  "demo_url =
     \<lparr>Scheme = ''foo'', Hostname = '''', URL.Port = ''9500'', Query = [(''remote'', [''r''])]\<rparr>"

definition demo_parse_env :: parse_env where
  "demo_parse_env =
     \<lparr>url_Parse =
        (\<lambda>s. if s = ''foo://:9500?remote=r'' then Inr demo_url
             else if s = ''tcp+udp://:9500?remote=r'' then Inr (demo_url\<lparr>Scheme := ''tcp+udp''\<rparr>)
             else Inl (ErrorString ''unsupported'')),
      ParseAddr = (\<lambda>s. Inl (ErrorString ''unsupported'')),
      ParseDuration = (\<lambda>s. Inl (ErrorString ''unsupported'')),
      Atoi = (\<lambda>s. Inl (ErrorString ''unsupported''))\<rparr>"

section \<open>Properties\<close>

lemmas proto_defs = ProtocolTCP_def ProtocolUDP_def ProtocolIP_def ProtocolTCPUDP_def
lemmas version_defs = NetworkVersionDual_def NetworkVersion4_def NetworkVersion6_def

lemma FormatUint_digit: "n < 10 \<Longrightarrow> FormatUint n = [digit_char n]"
  by (subst FormatUint.simps) simp

subsection \<open>Networks and their string form\<close>

text \<open>
  With version 4 or 6 the string form of a network parses back to the network.
\<close>

lemma Network_roundtrip_v4_v6:
  "p \<in> {ProtocolTCP, ProtocolUDP, ProtocolIP} \<Longrightarrow> v \<in> {NetworkVersion4, NetworkVersion6} \<Longrightarrow>
   ParseNetwork (Network_String \<lparr>Protocol = p, Version = v\<rparr>) = Inr \<lparr>Protocol = p, Version = v\<rparr>"
  by (elim insertE emptyE;
      simp add: ParseNetwork_def Network_String_def Itoa_def proto_defs version_defs
        FormatUint_digit digit_char_def)

text \<open>
  C5.  The claim is that \<open>ParseNetwork (Network_String n) = Inr n\<close> for every network
  \<open>n\<close> with protocol tcp, udp or ip and version 4, 6 or dual.  For the dual version
  the code does otherwise: the string form ends in the digit \<open>0\<close> (\<open>tcp0\<close>,
  \<open>udp0\<close>, \<open>ip0\<close>), and \<open>ParseNetwork\<close> refuses it with \<open>ErrInvalidNetwork\<close>.
\<close>

theorem Network_roundtrip_dual_fails:
  "Network_String \<lparr>Protocol = ProtocolTCP, Version = NetworkVersionDual\<rparr> = ''tcp0'' \<and>
   ParseNetwork (Network_String \<lparr>Protocol = ProtocolTCP, Version = NetworkVersionDual\<rparr>)
     = Inl ErrInvalidNetwork \<and>
   ParseNetwork (Network_String \<lparr>Protocol = ProtocolUDP, Version = NetworkVersionDual\<rparr>)
     = Inl ErrInvalidNetwork \<and>
   ParseNetwork (Network_String \<lparr>Protocol = ProtocolIP, Version = NetworkVersionDual\<rparr>)
     = Inl ErrInvalidNetwork"
  by (simp add: ParseNetwork_def Network_String_def Itoa_def proto_defs version_defs
      FormatUint_digit digit_char_def)

subsection \<open>The address shuffle of the resolver\<close>

lemma randomSortAddresses_two_or_more:
  "2 \<le> length raw \<Longrightarrow> randomSortAddresses rnd raw = []"
  by (simp add: randomSortAddresses_def go_copy_def Shuffle_def)

lemma randomSortAddresses_short:
  "length raw \<le> 1 \<Longrightarrow> randomSortAddresses rnd raw = raw"
  by (simp add: randomSortAddresses_def)

text \<open>
  C2.  The claim is that \<open>randomSortAddresses\<close> returns a permutation of its input, so
  that \<open>SystemResolver_Lookup\<close> returns every address that passes the strategy
  filter.  The code does otherwise on a list of two addresses: the copy into the nil
  slice copies nothing, the result is the empty list, and a lookup that found 1.1.1.1
  and 1.0.0.1 returns no address at all, with no error.
\<close>

theorem randomSortAddresses_loses_addresses:
  "randomSortAddresses rnd [Addr4 16843009, Addr4 16777217] = [] \<and>
   SystemResolver_Lookup rnd (Inr [[1, 1, 1, 1], [1, 0, 0, 1]]) StrategyDefault = Inr ([], [])"
  by (simp add: SystemResolver_Lookup_def Strategy_IsValid_def StrategyDefault_def
      strategyMax_def AddrFromSlice_def StrategyIPv6Only_def StrategyIPv4Only_def
      randomSortAddresses_def go_copy_def Shuffle_def)

subsection \<open>The read deadline of the raw DNS client\<close>



subsection \<open>The sub-dialer chosen by \<open>DialSerial\<close>\<close>

lemma dial_of_never_dialer6:
  "fst (dial_of d nn network addr port) \<noteq> F_dialer6 \<and>
   fst (dial_of d nn network addr port) \<noteq> F_udpDialer6"
  by (simp add: dial_of_def select_dialers_def)

text \<open>
  C1.  The claim is that an IPv6 candidate is dialed with the IPv6 sub-dialer.  The
  code does otherwise: for a dialer built with an IPv6 source address (and no IPv4 one),
  the TCP dial of the IPv6 candidate \<open>Addr6 2\<close> goes through \<open>dialer4\<close>, whose
  local address is unset, while \<open>dialer6\<close> holds the configured source address.
\<close>

theorem DialSerial_ipv6_uses_dialer4:
  "\<exists>d. NewDefault ''linux'' bind6_config = Inr d \<and>
    LocalAddr (Dialer (dialer6 d)) = Some (Addr6 1 '''') \<and>
    LocalAddr (Dialer (dialer4 d)) = None \<and>
    DialSerial connect_ok_env d ''tcp'' [Addr6 2 ''''] 443 =
      (Inr 7, [(F_dialer4, DialTFO (dialer4 d) ''tcp'' (HostPort (Addr6 2 '''') 443) None)])"
  by (simp add: NewDefault_def bind6_config_def connect_ok_env_def DialSerial_def
      ParseNetwork_def proto_defs version_defs filterAddressByNetwork_def dial_of_def
      select_dialers_def Let_def zero_Dialer_def)

subsection \<open>Starting a listener\<close>

lemma Start_options: "options (fst (Start env l)) = options l"
  by (auto simp: Start_def Start_udp_def ListenTCP_def ListenUDP_def Let_def
      split: sum.splits option.splits prod.splits)

lemma Start_udp_only_panics_general:
  "Contain (ListenOptions.Network opts) ProtocolUDP \<Longrightarrow>
   \<not> Contain (ListenOptions.Network opts) ProtocolTCP \<Longrightarrow>
   os_ListenPacket env (udp_listenConfig opts)
     (family_network ProtocolUDP (ListenOptions.Family opts))
     (Address opts, ListenOptions.Port opts) = Inr c \<Longrightarrow>
   snd (snd (Start env (NewListener opts))) =
     Panic ''invalid memory address or nil pointer dereference''"
  by (simp add: Start_def Start_udp_def ListenUDP_def NewListener_def Let_def)

text \<open>
  C9.  The claim is that \<open>Start\<close> on a UDP-only listener whose socket binds returns
  nil without panicking.  The code does otherwise: for the listener of
  \<open>udp_only_options\<close>, with the bind succeeding, the log line after the bind reads the
  address of the TCP listener, which is nil, and \<open>Start\<close> panics.
\<close>

theorem Start_udp_only_panics:
  "snd (snd (Start bind_ok_env (NewListener udp_only_options))) =
     Panic ''invalid memory address or nil pointer dereference''"
  by (simp add: Start_def Start_udp_def ListenUDP_def NewListener_def udp_only_options_def
      bind_ok_env_def ToProtocolList_def Contain_def ParseNetwork_def proto_defs Let_def)

text \<open>
  The claim C8 as stated, a second \<open>Start\<close> returning an error rather than binding
  again, fails for the TCP-only listener on port 0: the first \<open>Start\<close> binds the
  socket 3 and returns nil, and \<open>Start\<close> on the listener the first one left binds
  again, puts the new socket 5 in the place of the old one, logs and spawns the accept
  loop again, and returns nil.
\<close>

theorem Start_twice_succeeds:
  "Start bind_ok_env (NewListener tcp_only_options) =
     (started_tcp_listener, [LogInfo ''new tcp server started at'' 3, GoLoopTcp], Return None) \<and>
   Start rebind_env started_tcp_listener =
     (started_tcp_listener\<lparr>tcpListener := Some 5\<rparr>,
      [LogInfo ''new tcp server started at'' 5, GoLoopTcp], Return None)"
  by (simp add: Start_def Start_udp_def ListenTCP_def NewListener_def tcp_only_options_def
      udp_only_options_def bind_ok_env_def rebind_env_def ToProtocolList_def Contain_def
      ParseNetwork_def proto_defs Let_def started_tcp_listener_def)

lemma Start_NewListener_protocols:
  "Start env (NewListener opts) = (l1, evs, Return None) \<Longrightarrow>
   Contain (ListenOptions.Network opts) ProtocolUDP \<Longrightarrow>
   Contain (ListenOptions.Network opts) ProtocolTCP"
  by (auto simp: Start_def Start_udp_def ListenUDP_def NewListener_def Let_def
      split: sum.splits if_splits)

text \<open>
  C8, amended.  \<open>Start\<close> keeps no record of having been called.  After a first
  \<open>Start\<close> that returned nil on a listener built by \<open>NewListener\<close>, a second
  \<open>Start\<close> does what a first one does.  If the protocols include TCP it binds the
  TCP socket again, with the options of the listener; when that bind fails it returns the
  wrapped error of that bind and changes nothing; when it succeeds it stores the new
  socket in place of the old one, logs, spawns the accept loop again and, if the
  protocols include UDP, binds the UDP socket again: a failure of that bind is returned
  wrapped, a success stores the new socket, spawns the receive loop again, logs and
  returns nil.  So the second call returns an error exactly when one of the binds it
  attempts itself fails.  Without TCP among the protocols the second call binds
  nothing and returns nil.
\<close>

theorem Start_second_call:
  assumes "Start env1 (NewListener opts) = (l1, evs1, Return None)"
  shows "Start env2 l1 =
     (if Contain (ListenOptions.Network opts) ProtocolTCP then
        (case os_Listen env2 (tcp_listenConfig opts) (ListenOptions.TFO opts)
                (family_network ProtocolTCP (ListenOptions.Family opts))
                (Address opts, ListenOptions.Port opts) of
           Inl e \<Rightarrow> (l1, [], Return (Some (Wrap ''listen'' e)))
         | Inr h \<Rightarrow>
             (if Contain (ListenOptions.Network opts) ProtocolUDP then
                (case os_ListenPacket env2 (udp_listenConfig opts)
                        (family_network ProtocolUDP (ListenOptions.Family opts))
                        (Address opts, ListenOptions.Port opts) of
                   Inl e \<Rightarrow>
                     (l1\<lparr>tcpListener := Some h\<rparr>,
                      [LogInfo ''new tcp server started at'' h, GoLoopTcp],
                      Return (Some (Wrap ''listen'' e)))
                 | Inr c \<Rightarrow>
                     (l1\<lparr>tcpListener := Some h, udpConn := Some c\<rparr>,
                      [LogInfo ''new tcp server started at'' h, GoLoopTcp,
                       if PacketHandlerOOb opts then GoLoopUdpInOOb else GoLoopUdpIn,
                       LogInfo ''new udp server started at'' h],
                      Return None))
              else
                (l1\<lparr>tcpListener := Some h\<rparr>,
                 [LogInfo ''new tcp server started at'' h, GoLoopTcp], Return None)))
      else (l1, [], Return None))"
proof -
  have o: "options l1 = opts"
    using Start_options[of env1 "NewListener opts"] assms by (simp add: NewListener_def)
  show ?thesis
  proof (cases "Contain (ListenOptions.Network opts) ProtocolTCP")
    case True
    then show ?thesis
      using o
      by (simp add: Start_def Start_udp_def ListenTCP_def ListenUDP_def Let_def
          split: sum.splits)
  next
    case False
    then have "\<not> Contain (ListenOptions.Network opts) ProtocolUDP"
      using Start_NewListener_protocols[OF assms] by blast
    then show ?thesis
      using False o by (simp add: Start_def Start_udp_def)
  qed
qed

theorem Start_second_call_witness:
  "Start bind_ok_env (NewListener both_options) =
     (started_both_listener,
      [LogInfo ''new tcp server started at'' 3, GoLoopTcp, GoLoopUdpIn,
       LogInfo ''new udp server started at'' 3], Return None) \<and>
   Start rebind_env started_both_listener =
     (started_both_listener\<lparr>tcpListener := Some 5, udpConn := Some 6\<rparr>,
      [LogInfo ''new tcp server started at'' 5, GoLoopTcp, GoLoopUdpIn,
       LogInfo ''new udp server started at'' 5], Return None)"
proof -
  have first: "Start bind_ok_env (NewListener both_options) =
     (started_both_listener,
      [LogInfo ''new tcp server started at'' 3, GoLoopTcp, GoLoopUdpIn,
       LogInfo ''new udp server started at'' 3], Return None)"
    by (simp add: Start_def Start_udp_def ListenTCP_def ListenUDP_def NewListener_def
        both_options_def udp_only_options_def bind_ok_env_def ToProtocolList_def Contain_def
        ParseNetwork_def proto_defs Let_def started_both_listener_def)
  have tcp: "Contain (ListenOptions.Network both_options) ProtocolTCP"
    and udp: "Contain (ListenOptions.Network both_options) ProtocolUDP"
    and oob: "\<not> PacketHandlerOOb both_options"
    by (simp_all add: both_options_def udp_only_options_def ToProtocolList_def Contain_def
        ParseNetwork_def proto_defs)
  have second: "Start rebind_env started_both_listener =
     (started_both_listener\<lparr>tcpListener := Some 5, udpConn := Some 6\<rparr>,
      [LogInfo ''new tcp server started at'' 5, GoLoopTcp, GoLoopUdpIn,
       LogInfo ''new udp server started at'' 5], Return None)"
    using Start_second_call[OF first, of rebind_env] tcp udp oob
    by (simp add: rebind_env_def)
  show ?thesis
    by (rule conjI[OF first second])
qed

subsection \<open>Zero-length datagrams in the receive loops\<close>

text \<open>
  The claim C7 as stated, a zero-length datagram never reaching the handler in either
  loop, fails in the plain loop: a started UDP listener that reads one empty datagram
  calls the packet handler with the empty payload, and logs nothing.
\<close>

theorem loopUdpIn_forwards_empty:
  "loopUdpIn started_udp_listener [ReadOK ([], (Addr4 167772161, 40000))] =
     ([HandlePacket [] (Addr4 167772161, 40000)], Blocked)"
  by (simp add: loopUdpIn_def started_udp_listener_def NewListener_def udp_only_options_def)

lemma loopUdpInOOb_body_never_empty:
  "HandlePacketOOb oob [] remote \<notin> set (fst (loopUdpInOOb_body h n reads))"
  by (induction h n reads rule: loopUdpInOOb_body.induct) (auto split: prod.splits)

lemma loopUdpInOOb_body_events:
  "list_all (\<lambda>r. case r of ReadErr e done \<Rightarrow> \<not> done | ReadOK x \<Rightarrow> True) reads \<Longrightarrow>
   loopUdpInOOb_body True n reads =
     (map (\<lambda>r. case r of
             ReadErr e done \<Rightarrow> LogError ''read udp message'' e
           | ReadOK (p, oob, remote) \<Rightarrow>
               if take n p = [] then LogWarn ''read a zero size udp message without error''
               else HandlePacketOOb (take 4096 oob) (take n p) remote) reads,
      Blocked)"
  by (induction True n reads rule: loopUdpInOOb_body.induct) (auto split: prod.splits)

lemma loopUdpIn_body_events:
  "list_all (\<lambda>r. case r of ReadErr e done \<Rightarrow> \<not> done | ReadOK x \<Rightarrow> True) reads \<Longrightarrow>
   loopUdpIn_body True n reads =
     (map (\<lambda>r. case r of
             ReadErr e done \<Rightarrow> LogError ''read udp message'' e
           | ReadOK (p, remote) \<Rightarrow> HandlePacket (take n p) remote) reads,
      Blocked)"
  by (induction True n reads rule: loopUdpIn_body.induct) (auto split: prod.splits)


text \<open>
  C7, amended.  In the out-of-band receive loop a datagram received with length zero and
  no error is logged and not passed to the handler (no call of the handler ever carries
  an empty payload).  In the plain receive loop, the one \<open>Start\<close> spawns when no
  out-of-band handler is set, every datagram received without error, a zero-length one
  included, is passed to the packet handler and not logged.  Each loop runs on a
  listener whose UDP socket is bound and whose own handler is set (\<open>lo\<close> for the
  out-of-band loop, \<open>l\<close> for the plain one), and no read error arrives after the
  context is done (the loop would return there).
\<close>

theorem zero_length_datagrams:
  assumes "udpConn lo \<noteq> None" and "0 \<le> ListenOptions.UDPBufferSize (options lo)"
    and "PacketHandlerOOb (options lo)"
    and "list_all (\<lambda>r. case r of ReadErr e done \<Rightarrow> \<not> done | ReadOK x \<Rightarrow> True) oob_reads"
    and "udpConn l \<noteq> None" and "0 \<le> ListenOptions.UDPBufferSize (options l)"
    and "PacketHandler (options l)"
    and "list_all (\<lambda>r. case r of ReadErr e done \<Rightarrow> \<not> done | ReadOK x \<Rightarrow> True) reads"
  shows "loopUdpInOOb lo oob_reads =
     (map (\<lambda>r. case r of
             ReadErr e done \<Rightarrow> LogError ''read udp message'' e
           | ReadOK (p, oob, remote) \<Rightarrow>
               if take (nat (ListenOptions.UDPBufferSize (options lo))) p = []
               then LogWarn ''read a zero size udp message without error''
               else HandlePacketOOb (take 4096 oob)
                      (take (nat (ListenOptions.UDPBufferSize (options lo))) p) remote)
        oob_reads, Blocked) \<and>
    HandlePacketOOb oob [] remote \<notin> set (fst (loopUdpInOOb any_l any_reads)) \<and>
    loopUdpIn l reads =
     (map (\<lambda>r. case r of
             ReadErr e done \<Rightarrow> LogError ''read udp message'' e
           | ReadOK (p, remote) \<Rightarrow>
               HandlePacket (take (nat (ListenOptions.UDPBufferSize (options l))) p) remote)
        reads, Blocked)"
proof -
  have 1: "loopUdpInOOb lo oob_reads =
      loopUdpInOOb_body True (nat (ListenOptions.UDPBufferSize (options lo))) oob_reads"
    using assms(1-3) by (auto simp: loopUdpInOOb_def)
  have 2: "loopUdpIn l reads =
      loopUdpIn_body True (nat (ListenOptions.UDPBufferSize (options l))) reads"
    using assms(5-7) by (auto simp: loopUdpIn_def)
  have 3: "HandlePacketOOb oob [] remote \<notin> set (fst (loopUdpInOOb any_l any_reads))"
    using loopUdpInOOb_body_never_empty[of oob remote] by (simp add: loopUdpInOOb_def)
  show ?thesis
    unfolding 1 2 loopUdpInOOb_body_events[OF assms(4)] loopUdpIn_body_events[OF assms(8)]
    using 3 by blast
qed

theorem zero_length_datagrams_witness:
  "udpConn oob_udp_listener \<noteq> None \<and>
   0 \<le> ListenOptions.UDPBufferSize (options oob_udp_listener) \<and>
   PacketHandlerOOb (options oob_udp_listener) \<and>
   udpConn started_udp_listener \<noteq> None \<and>
   0 \<le> ListenOptions.UDPBufferSize (options started_udp_listener) \<and>
   PacketHandler (options started_udp_listener) \<and>
   \<not> PacketHandlerOOb (options started_udp_listener) \<and>
   loopUdpInOOb oob_udp_listener [ReadOK ([], [], flow_client), ReadOK ([7], [], flow_client)]
     = ([LogWarn ''read a zero size udp message without error'',
         HandlePacketOOb [] [7] flow_client], Blocked) \<and>
   loopUdpIn started_udp_listener [ReadOK ([], flow_client), ReadOK ([7], flow_client)]
     = ([HandlePacket [] flow_client, HandlePacket [7] flow_client], Blocked)"
  using zero_length_datagrams[of oob_udp_listener
      "[ReadOK ([], [], flow_client), ReadOK ([7], [], flow_client)]"
      started_udp_listener
      "[ReadOK ([], flow_client), ReadOK ([7], flow_client)]"]
  by (simp add: oob_udp_listener_def started_udp_listener_def NewListener_def
      udp_only_options_def)

subsection \<open>Read errors in the upstream-read loop of a UDP flow\<close>

lemma newUdpLoop_reads_refused:
  "list_all (\<lambda>r. case r of Inl e \<Rightarrow> is_conn_refused e | Inr p \<Rightarrow> True) pre \<Longrightarrow>
   snd (newUdpLoop_reads fresh n client pre) = Blocked"
  by (induction fresh n client pre rule: newUdpLoop_reads.induct) (auto split: prod.splits)

lemma newUdpLoop_reads_other:
  "list_all (\<lambda>r. case r of Inl e \<Rightarrow> is_conn_refused e | Inr p \<Rightarrow> True) pre \<Longrightarrow>
   \<not> is_conn_refused err \<Longrightarrow>
   snd (newUdpLoop_reads fresh n client (pre @ Inl err # post)) = Returned"
  by (induction fresh n client pre rule: newUdpLoop_reads.induct) (auto split: prod.splits)

text \<open>
  C3.  In the upstream-read loop of a flow, a read error that is an \<open>OpError\<close> whose
  wrapped error has \<open>ECONNREFUSED\<close> in its chain makes the loop read again on the same
  socket: as long as the reads deliver datagrams or such errors, the loop is still
  reading and the state, with the entry of the flow, is unchanged.  Any other read
  error (a deadline timeout included) ends the loop, removes the entry of the client
  from the connection-track map and closes the upstream socket.
\<close>

theorem newUdpLoop_read_errors:
  assumes "0 \<le> BindConfig.UDPBufferSize config"
    and "list_all (\<lambda>r. case r of Inl e \<Rightarrow> is_conn_refused e | Inr p \<Rightarrow> True) pre"
  shows "(case newUdpLoop t client conn config pre of
            (t', evs, st) \<Rightarrow> st = Blocked \<and> t' = t) \<and>
         (\<not> is_conn_refused err \<longrightarrow>
           (case newUdpLoop t client conn config (pre @ Inl err # post) of
              (t', evs, st) \<Rightarrow> st = Returned \<and>
                 udpConnTrack t' = (udpConnTrack t)(client := None) \<and>
                 closedConns t' = insert conn (closedConns t))) \<and>
         is_conn_refused (OpError op inner) = errors_Is inner ECONNREFUSED"
proof -
  let ?n = "nat (BindConfig.UDPBufferSize config)"
  have 1: "snd (newUdpLoop_reads True ?n client pre) = Blocked"
    by (rule newUdpLoop_reads_refused[OF assms(2)])
  have a: "(case newUdpLoop t client conn config pre of
            (t', evs, st) \<Rightarrow> st = Blocked \<and> t' = t)"
    using assms(1) 1 by (auto simp: newUdpLoop_def split: prod.splits loop_status.splits)
  have b: "(case newUdpLoop t client conn config (pre @ Inl err # post) of
              (t', evs, st) \<Rightarrow> st = Returned \<and>
                 udpConnTrack t' = (udpConnTrack t)(client := None) \<and>
                 closedConns t' = insert conn (closedConns t))"
    if "\<not> is_conn_refused err"
  proof -
    have "snd (newUdpLoop_reads True ?n client (pre @ Inl err # post)) = Returned"
      by (rule newUdpLoop_reads_other[OF assms(2) that])
    then show ?thesis
      using assms(1)
      by (auto simp: newUdpLoop_def newUdpLoop_deferred_def
          split: prod.splits loop_status.splits)
  qed
  have c: "is_conn_refused (OpError op inner) = errors_Is inner ECONNREFUSED"
    by (simp add: is_conn_refused_def)
  show ?thesis using a b c by blast
qed

theorem newUdpLoop_read_errors_witness:
  "0 \<le> BindConfig.UDPBufferSize NewDefaultBind \<and>
   list_all (\<lambda>r. case r of Inl e \<Rightarrow> is_conn_refused e | Inr p \<Rightarrow> True)
     [Inl (OpError ''read'' (SyscallError ''recvfrom'' ECONNREFUSED)), Inr [1, 2 :: byte]] \<and>
   \<not> is_conn_refused (OpError ''read'' ErrTimeout) \<and>
   (case newUdpLoop flow_traffics flow_client 9 NewDefaultBind
           [Inl (OpError ''read'' (SyscallError ''recvfrom'' ECONNREFUSED)), Inr [1, 2 :: byte]] of
      (t', evs, st) \<Rightarrow> st = Blocked \<and> t' = flow_traffics) \<and>
   (case newUdpLoop flow_traffics flow_client 9 NewDefaultBind
           ([Inl (OpError ''read'' (SyscallError ''recvfrom'' ECONNREFUSED)), Inr [1, 2 :: byte]] @
            Inl (OpError ''read'' ErrTimeout) # []) of
      (t', evs, st) \<Rightarrow> st = Returned \<and>
        udpConnTrack t' = (udpConnTrack flow_traffics)(flow_client := None) \<and>
        closedConns t' = insert 9 (closedConns flow_traffics))"
proof -
  have h1: "0 \<le> BindConfig.UDPBufferSize NewDefaultBind"
    by (simp add: NewDefaultBind_def)
  have h2: "list_all (\<lambda>r. case r of Inl e \<Rightarrow> is_conn_refused e | Inr p \<Rightarrow> True)
     [Inl (OpError ''read'' (SyscallError ''recvfrom'' ECONNREFUSED)), Inr [1, 2 :: byte]]"
    by (simp add: is_conn_refused_def)
  have h3: "\<not> is_conn_refused (OpError ''read'' ErrTimeout)"
    by (simp add: is_conn_refused_def)
  note T = newUdpLoop_read_errors[OF h1 h2, of flow_traffics flow_client 9
        "OpError ''read'' ErrTimeout" "[]" "''read''" ErrTimeout]
  note a = T[THEN conjunct1]
  note b = mp[OF T[THEN conjunct2, THEN conjunct1] h3]
  show ?thesis
    by (rule conjI[OF h1 conjI[OF h2 conjI[OF h3 conjI[OF a b]]]])
qed

subsection \<open>The dialer table of the supervisor\<close>

lemma initDialer_loop_mono: "initDialer_loop goos vs tbl = (tbl', r) \<Longrightarrow> tbl \<subseteq>\<^sub>m tbl'"
proof (induction vs arbitrary: tbl)
  case Nil
  then show ?case by simp
next
  case (Cons v vs)
  show ?case
  proof (cases "RemoteConfig.Name v = '''' \<or> tbl (RemoteConfig.Name v) \<noteq> None \<or>
                isl (NewDefault goos (remote_DialConfig v))")
    case True
    then have "tbl' = tbl"
      using Cons.prems by (auto split: if_splits option.splits sum.splits)
    then show ?thesis by simp
  next
    case False
    then obtain dd where dd: "NewDefault goos (remote_DialConfig v) = Inr dd"
      by (cases "NewDefault goos (remote_DialConfig v)") auto
    let ?e = "\<lparr>address = JoinHostPort (Server v) (FormatUint (RemoteConfig.Port v)), dialer = dd\<rparr>"
    have "initDialer_loop goos vs (tbl(RemoteConfig.Name v \<mapsto> ?e)) = (tbl', r)"
      using Cons.prems False dd by auto
    then have "tbl(RemoteConfig.Name v \<mapsto> ?e) \<subseteq>\<^sub>m tbl'" by (rule Cons.IH)
    moreover have "tbl \<subseteq>\<^sub>m tbl(RemoteConfig.Name v \<mapsto> ?e)"
      using False by (auto simp: map_le_def)
    ultimately show ?thesis by (rule map_le_trans[rotated])
  qed
qed

lemma initDialer_loop_ok:
  "initDialer_loop goos vs tbl = (tbl', None) \<Longrightarrow>
   distinct (map RemoteConfig.Name vs) \<and>
   (\<forall>v\<in>set vs. RemoteConfig.Name v \<noteq> '''' \<and> RemoteConfig.Name v \<notin> dom tbl \<and>
      (\<exists>dd. NewDefault goos (remote_DialConfig v) = Inr dd \<and>
         tbl' (RemoteConfig.Name v) =
           Some \<lparr>address = JoinHostPort (Server v) (FormatUint (RemoteConfig.Port v)),
                 dialer = dd\<rparr>)) \<and>
   dom tbl' = dom tbl \<union> RemoteConfig.Name ` set vs"
proof (induction vs arbitrary: tbl)
  case Nil
  then show ?case by simp
next
  case (Cons v vs)
  have n: "RemoteConfig.Name v \<noteq> ''''" and t: "tbl (RemoteConfig.Name v) = None"
    using Cons.prems by (auto split: if_splits option.splits sum.splits)
  obtain dd where dd: "NewDefault goos (remote_DialConfig v) = Inr dd"
    using Cons.prems n t by (cases "NewDefault goos (remote_DialConfig v)") auto
  let ?e = "\<lparr>address = JoinHostPort (Server v) (FormatUint (RemoteConfig.Port v)), dialer = dd\<rparr>"
  let ?tbl = "tbl(RemoteConfig.Name v \<mapsto> ?e)"
  have rec: "initDialer_loop goos vs ?tbl = (tbl', None)"
    using Cons.prems n t dd by auto
  note ih = Cons.IH[OF rec]
  have le: "?tbl \<subseteq>\<^sub>m tbl'" by (rule initDialer_loop_mono[OF rec])
  have v: "tbl' (RemoteConfig.Name v) = Some ?e"
    using le by (auto simp: map_le_def)
  from ih have fresh:
    "\<forall>w\<in>set vs. RemoteConfig.Name w \<noteq> RemoteConfig.Name v \<and> RemoteConfig.Name w \<notin> dom tbl"
    by auto
  show ?case
    using ih n t dd v fresh by (auto simp: domIff)
qed

text \<open>
  C4.  When \<open>initDialer\<close>, run on the supervisor as \<open>NewTraffics\<close> builds it, returns
  no error, the names of the remotes are pairwise different and not empty, the table
  \<open>nameToDialer\<close> holds under the name of every remote the entry built from that
  remote, and it holds exactly one entry per remote and nothing else.  If a remote has
  an empty name or two remotes share a name, \<open>initDialer\<close> returns an error.  An
  entry of the table is never replaced: whatever the outcome, every entry the table
  held before is still there.
\<close>

theorem initDialer_table:
  "(snd (initDialer goos (NewTraffics remotes)) = None \<longrightarrow>
      distinct (map RemoteConfig.Name remotes) \<and>
      (\<forall>v\<in>set remotes. RemoteConfig.Name v \<noteq> '''' \<and>
         (\<exists>dd. nameToDialer (fst (initDialer goos (NewTraffics remotes))) (RemoteConfig.Name v) =
            Some \<lparr>address = JoinHostPort (Server v) (FormatUint (RemoteConfig.Port v)),
                  dialer = dd\<rparr>)) \<and>
      dom (nameToDialer (fst (initDialer goos (NewTraffics remotes)))) =
        RemoteConfig.Name ` set remotes \<and>
      card (dom (nameToDialer (fst (initDialer goos (NewTraffics remotes))))) = length remotes) \<and>
   ((\<exists>v\<in>set remotes. RemoteConfig.Name v = '''') \<or> \<not> distinct (map RemoteConfig.Name remotes) \<longrightarrow>
      snd (initDialer goos (NewTraffics remotes)) \<noteq> None) \<and>
   nameToDialer t \<subseteq>\<^sub>m nameToDialer (fst (initDialer goos t))"
proof -
  obtain tbl r where l: "initDialer_loop goos remotes Map.empty = (tbl, r)"
    by (cases "initDialer_loop goos remotes Map.empty") auto
  have i: "initDialer goos (NewTraffics remotes) = ((NewTraffics remotes)\<lparr>nameToDialer := tbl\<rparr>, r)"
    using l by (simp add: initDialer_def NewTraffics_def)
  have ok: "distinct (map RemoteConfig.Name remotes) \<and>
      (\<forall>v\<in>set remotes. RemoteConfig.Name v \<noteq> '''' \<and>
         (\<exists>dd. tbl (RemoteConfig.Name v) =
            Some \<lparr>address = JoinHostPort (Server v) (FormatUint (RemoteConfig.Port v)),
                  dialer = dd\<rparr>)) \<and>
      dom tbl = RemoteConfig.Name ` set remotes \<and> card (dom tbl) = length remotes" if "r = None"
  proof -
    note k = initDialer_loop_ok[OF l[unfolded that]]
    have "card (RemoteConfig.Name ` set remotes) = length remotes"
      using k distinct_card[of "map RemoteConfig.Name remotes"] by simp
    then show ?thesis using k by auto
  qed
  have m: "nameToDialer t \<subseteq>\<^sub>m nameToDialer (fst (initDialer goos t))"
    using initDialer_loop_mono[of goos "config_Remote t" "nameToDialer t"]
    by (cases "initDialer_loop goos (config_Remote t) (nameToDialer t)") (simp add: initDialer_def)
  show ?thesis
    unfolding i using ok m by auto
qed

theorem initDialer_table_witness:
  "snd (initDialer ''linux'' (NewTraffics [dns_remote, web_remote])) = None \<and>
   distinct (map RemoteConfig.Name [dns_remote, web_remote]) \<and>
   dom (nameToDialer (fst (initDialer ''linux'' (NewTraffics [dns_remote, web_remote])))) =
     RemoteConfig.Name ` set [dns_remote, web_remote] \<and>
   card (dom (nameToDialer (fst (initDialer ''linux'' (NewTraffics [dns_remote, web_remote])))))
     = length [dns_remote, web_remote] \<and>
   \<not> distinct (map RemoteConfig.Name [dns_remote, dns_remote]) \<and>
   snd (initDialer ''linux'' (NewTraffics [dns_remote, dns_remote])) \<noteq> None"
proof -
  have ok: "snd (initDialer ''linux'' (NewTraffics [dns_remote, web_remote])) = None"
    by (simp add: initDialer_def NewTraffics_def NewDefault_def remote_DialConfig_def
        dns_remote_def web_remote_def Let_def split: prod.splits)
  have dup: "\<not> distinct (map RemoteConfig.Name [dns_remote, dns_remote])"
    by simp
  note T1 = initDialer_table[of "''linux''" "[dns_remote, web_remote]" "NewTraffics []"]
  note T2 = initDialer_table[of "''linux''" "[dns_remote, dns_remote]" "NewTraffics []"]
  note R = mp[OF T1[THEN conjunct1] ok]
  note P1 = R[THEN conjunct1]
  note P3 = R[THEN conjunct2, THEN conjunct2, THEN conjunct1]
  note P4 = R[THEN conjunct2, THEN conjunct2, THEN conjunct2]
  note F2 = mp[OF T2[THEN conjunct2, THEN conjunct1] disjI2[OF dup]]
  show ?thesis
    by (rule conjI[OF ok conjI[OF P1 conjI[OF P3 conjI[OF P4 conjI[OF dup F2]]]]])
qed

subsection \<open>Bind URLs with an unknown scheme\<close>

lemma Split_not_Nil: "Split s c \<noteq> []"
  by (induction s) (auto split: list.splits)

lemma Split_single: "Split s c = [b] \<Longrightarrow> s = b"
  using Split_not_Nil by (induction s arbitrary: b) (auto split: if_splits list.splits)

lemma Split_two: "Split s c = [a, b] \<Longrightarrow> s = a @ c # b"
proof (induction s arbitrary: a)
  case Nil
  then show ?case by simp
next
  case (Cons x xs)
  show ?case
  proof (cases "x = c")
    case True
    then have "a = []" and "Split xs c = [b]" using Cons.prems by auto
    then show ?thesis using True Split_single by auto
  next
    case False
    then obtain w where "a = x # w" and "Split xs c = [w, b]"
      using Cons.prems by (auto split: list.splits)
    then show ?thesis using Cons.IH by auto
  qed
qed

lemma ParseProtocol_unknown:
  assumes "name \<notin> {''tcp'', ''udp'', ''ip'', ''tcp+udp'', ''udp+tcp''}"
  shows "ParseProtocol name = ''''"
proof -
  have "False" if l: "length (Split name (CHR ''+'')) = 2"
    and m: "(Split name (CHR ''+'') ! 0 = ''tcp'' \<and> Split name (CHR ''+'') ! 1 = ''udp'') \<or>
            (Split name (CHR ''+'') ! 0 = ''udp'' \<and> Split name (CHR ''+'') ! 1 = ''tcp'')"
  proof -
    obtain a b where ab: "Split name (CHR ''+'') = [a, b]"
      using l by (cases "Split name (CHR ''+'')" ; cases "tl (Split name (CHR ''+''))") auto
    then have "name = a @ CHR ''+'' # b" by (rule Split_two)
    then show False using m ab assms by auto
  qed
  then show ?thesis
    using assms by (auto simp: ParseProtocol_def Let_def proto_defs)
qed

lemma query_commute:
  assumes h:
    "\<And>c x. h (c\<lparr>BindConfig.Family := x\<rparr>) = (h c)\<lparr>BindConfig.Family := x\<rparr>"
    "\<And>c x. h (c\<lparr>BindConfig.Interface := x\<rparr>) = (h c)\<lparr>BindConfig.Interface := x\<rparr>"
    "\<And>c x. h (c\<lparr>BindConfig.ReuseAddr := x\<rparr>) = (h c)\<lparr>BindConfig.ReuseAddr := x\<rparr>"
    "\<And>c x. h (c\<lparr>BindConfig.Name := x\<rparr>) = (h c)\<lparr>BindConfig.Name := x\<rparr>"
    "\<And>c x. h (c\<lparr>BindConfig.TFO := x\<rparr>) = (h c)\<lparr>BindConfig.TFO := x\<rparr>"
    "\<And>c x. h (c\<lparr>UDPKeepaliveTTL := x\<rparr>) = (h c)\<lparr>UDPKeepaliveTTL := x\<rparr>"
    "\<And>c x. h (c\<lparr>Remote := x\<rparr>) = (h c)\<lparr>Remote := x\<rparr>"
    "\<And>c x. h (c\<lparr>BindConfig.UDPBufferSize := x\<rparr>) = (h c)\<lparr>BindConfig.UDPBufferSize := x\<rparr>"
    "\<And>c x. h (c\<lparr>BindConfig.UDPFragment := x\<rparr>) = (h c)\<lparr>BindConfig.UDPFragment := x\<rparr>"
    "\<And>c x. h (c\<lparr>BindConfig.MPTCP := x\<rparr>) = (h c)\<lparr>BindConfig.MPTCP := x\<rparr>"
  shows "BindConfig_Parse_query env q (h c) =
     (case BindConfig_Parse_query env q c of (c', e) \<Rightarrow> (h c', e))"
proof (induction q arbitrary: c)
  case Nil
  then show ?case by simp
next
  case (Cons kv q)
  obtain k v where kv: "kv = (k, v)" by (cases kv)
  show ?case
    unfolding kv
    by (simp add: Let_def h[symmetric] Cons.IH split: sum.splits)
qed

lemma query_keeps_Network:
  "BindConfig.Network (fst (BindConfig_Parse_query env q c)) = BindConfig.Network c"
proof (induction q arbitrary: c)
  case Nil
  then show ?case by simp
next
  case (Cons kv q)
  obtain k v where kv: "kv = (k, v)" by (cases kv)
  show ?case
    unfolding kv
    by (simp add: Let_def Cons.IH split: sum.splits)
qed

lemma valid_scheme:
  "BindConfig.Network c = '''' \<Longrightarrow>
   BindConfig_valid (c\<lparr>BindConfig.Raw := r, BindConfig.Network := ProtocolTCPUDP\<rparr>) =
     (case BindConfig_valid c of (c', e) \<Rightarrow> (c'\<lparr>BindConfig.Raw := r\<rparr>, e)) \<and>
   BindConfig.Network (fst (BindConfig_valid c)) = ProtocolTCPUDP"
  by (simp add: BindConfig_valid_def Let_def proto_defs)

lemma Parse_url_scheme:
  assumes p: "ParseProtocol (Scheme uu) = ''''" and ne: "Scheme uu \<noteq> ''''"
  shows "snd (BindConfig_Parse_url env c s uu) =
           snd (BindConfig_Parse_url env c s' (uu\<lparr>Scheme := ''tcp+udp''\<rparr>)) \<and>
    (snd (BindConfig_Parse_url env c s uu) = None \<longrightarrow>
       BindConfig.Network (fst (BindConfig_Parse_url env c s uu)) = ProtocolTCPUDP \<and>
       (fst (BindConfig_Parse_url env c s uu))\<lparr>BindConfig.Raw := s'\<rparr> =
         fst (BindConfig_Parse_url env c s' (uu\<lparr>Scheme := ''tcp+udp''\<rparr>)))"
proof -
  have p': "ParseProtocol ''tcp+udp'' = ProtocolTCPUDP"
    by (simp add: ParseProtocol_def proto_defs)
  define h where "h = (\<lambda>c :: BindConfig. c\<lparr>BindConfig.Raw := s', BindConfig.Network := ProtocolTCPUDP\<rparr>)"
  have q: "BindConfig_Parse_query env qs (h c0) =
     (case BindConfig_Parse_query env qs c0 of (c', e) \<Rightarrow> (h c', e))" for qs c0
    by (rule query_commute) (simp_all add: h_def)
  define la where "la = (if Hostname uu = '''' then Inr AddrZero else ParseAddr env (Hostname uu))"
  define pt where "pt = (if URL.Port uu = '''' then Inr (BindConfig.Port c) else ParseUint (URL.Port uu) 16)"
  have E: "BindConfig_Parse_url env c s uu =
     (case la of
        Inl err \<Rightarrow> (c\<lparr>BindConfig.Raw := s\<rparr>, Some (Wrap ''prase bind(listen)'' err))
      | Inr a \<Rightarrow>
          (case pt of
             Inl err \<Rightarrow> (c\<lparr>BindConfig.Raw := s, Listen := a\<rparr>, Some (Wrap ''parse bind(port)'' err))
           | Inr pp \<Rightarrow>
               (case BindConfig_Parse_query env (Query uu)
                       (c\<lparr>BindConfig.Raw := s, Listen := a, BindConfig.Port := pp,
                          BindConfig.Network := ''''\<rparr>) of
                  (c5, Some err) \<Rightarrow> (c5, Some err)
                | (c5, None) \<Rightarrow> BindConfig_valid c5)))"
    unfolding la_def pt_def BindConfig_Parse_url_def Let_def using p ne
    by (simp split: sum.splits)
  have E': "BindConfig_Parse_url env c s' (uu\<lparr>Scheme := ''tcp+udp''\<rparr>) =
     (case la of
        Inl err \<Rightarrow> (c\<lparr>BindConfig.Raw := s'\<rparr>, Some (Wrap ''prase bind(listen)'' err))
      | Inr a \<Rightarrow>
          (case pt of
             Inl err \<Rightarrow> (c\<lparr>BindConfig.Raw := s', Listen := a\<rparr>, Some (Wrap ''parse bind(port)'' err))
           | Inr pp \<Rightarrow>
               (case BindConfig_Parse_query env (Query uu)
                       (c\<lparr>BindConfig.Raw := s', Listen := a, BindConfig.Port := pp,
                          BindConfig.Network := ProtocolTCPUDP\<rparr>) of
                  (c5, Some err) \<Rightarrow> (c5, Some err)
                | (c5, None) \<Rightarrow> BindConfig_valid c5)))"
    unfolding la_def pt_def BindConfig_Parse_url_def Let_def using p'
    by (simp split: sum.splits)
  have hc4: "c\<lparr>BindConfig.Raw := s', Listen := a, BindConfig.Port := pp,
                BindConfig.Network := ProtocolTCPUDP\<rparr> =
             h (c\<lparr>BindConfig.Raw := s, Listen := a, BindConfig.Port := pp,
                  BindConfig.Network := ''''\<rparr>)" for a pp
    by (cases c) (simp add: h_def)
  show ?thesis
  proof (cases la)
    case (Inl err)
    then show ?thesis unfolding E E' by simp
  next
    case (Inr a)
    note la = this
    show ?thesis
    proof (cases pt)
      case (Inl err)
      then show ?thesis unfolding E E' using la by simp
    next
      case (Inr pp)
      let ?c4 = "c\<lparr>BindConfig.Raw := s, Listen := a, BindConfig.Port := pp,
                    BindConfig.Network := ''''\<rparr>"
      obtain c5 e where c5: "BindConfig_Parse_query env (Query uu) ?c4 = (c5, e)"
        by (cases "BindConfig_Parse_query env (Query uu) ?c4") auto
      have n5: "BindConfig.Network c5 = ''''"
        using query_keeps_Network[of env "Query uu" ?c4] c5 by simp
      have A: "BindConfig_Parse_url env c s uu =
          (case e of Some err \<Rightarrow> (c5, Some err) | None \<Rightarrow> BindConfig_valid c5)"
        unfolding E using la Inr c5 by (simp split: option.splits)
      have B: "BindConfig_Parse_url env c s' (uu\<lparr>Scheme := ''tcp+udp''\<rparr>) =
          (case e of Some err \<Rightarrow> (h c5, Some err) | None \<Rightarrow> BindConfig_valid (h c5))"
        unfolding E' hc4 q using la Inr c5 by (simp split: option.splits)
      show ?thesis
        using valid_scheme[OF n5, of s']
        unfolding A B by (cases e) (auto simp: h_def split: prod.splits)
    qed
  qed
qed

text \<open>
  C10.  A bind URL whose scheme is not empty and is none of \<open>tcp\<close>, \<open>udp\<close>, \<open>ip\<close>,
  \<open>tcp+udp\<close>, \<open>udp+tcp\<close> does not fail because of its scheme: \<open>ParseProtocol\<close>
  returns the empty protocol for it, \<open>BindConfig_Parse\<close> returns for it the error (or
  no error) it returns for the same URL with the scheme \<open>tcp+udp\<close>, and when it
  returns no error the configuration has the protocol \<open>tcp+udp\<close> and is, up to the
  stored input string, the configuration parsed from the \<open>tcp+udp\<close> URL.
\<close>

theorem BindConfig_Parse_unknown_scheme:
  assumes "s \<noteq> ''''" and "url_Parse env s = Inr uu"
    and "s' \<noteq> ''''" and "url_Parse env s' = Inr (uu\<lparr>Scheme := ''tcp+udp''\<rparr>)"
    and "Scheme uu \<noteq> ''''"
    and "Scheme uu \<notin> {''tcp'', ''udp'', ''ip'', ''tcp+udp'', ''udp+tcp''}"
  shows "ParseProtocol (Scheme uu) = '''' \<and>
    snd (BindConfig_Parse env c s) = snd (BindConfig_Parse env c s') \<and>
    (snd (BindConfig_Parse env c s) = None \<longrightarrow>
       BindConfig.Network (fst (BindConfig_Parse env c s)) = ProtocolTCPUDP \<and>
       (fst (BindConfig_Parse env c s))\<lparr>BindConfig.Raw := s'\<rparr> = fst (BindConfig_Parse env c s'))"
proof -
  have p: "ParseProtocol (Scheme uu) = ''''"
    by (rule ParseProtocol_unknown[OF assms(6)])
  have U: "BindConfig_Parse env c s = BindConfig_Parse_url env c s uu"
    using assms(1,2) by (simp add: BindConfig_Parse_def)
  have U': "BindConfig_Parse env c s' = BindConfig_Parse_url env c s' (uu\<lparr>Scheme := ''tcp+udp''\<rparr>)"
    using assms(3,4) by (simp add: BindConfig_Parse_def)
  show ?thesis
    unfolding U U' using p Parse_url_scheme[OF p assms(5), of env c s s'] by blast
qed

theorem BindConfig_Parse_unknown_scheme_witness:
  "''foo://:9500?remote=r'' \<noteq> '''' \<and>
   url_Parse demo_parse_env ''foo://:9500?remote=r'' = Inr demo_url \<and>
   url_Parse demo_parse_env ''tcp+udp://:9500?remote=r'' = Inr (demo_url\<lparr>Scheme := ''tcp+udp''\<rparr>) \<and>
   Scheme demo_url \<noteq> '''' \<and>
   Scheme demo_url \<notin> {''tcp'', ''udp'', ''ip'', ''tcp+udp'', ''udp+tcp''} \<and>
   snd (BindConfig_Parse demo_parse_env NewDefaultBind ''foo://:9500?remote=r'') = None \<and>
   BindConfig.Network (fst (BindConfig_Parse demo_parse_env NewDefaultBind ''foo://:9500?remote=r''))
     = ProtocolTCPUDP \<and>
   BindConfig.Port (fst (BindConfig_Parse demo_parse_env NewDefaultBind ''foo://:9500?remote=r''))
     = 9500"
proof -
  have e: "snd (BindConfig_Parse demo_parse_env NewDefaultBind ''foo://:9500?remote=r'') = None \<and>
     BindConfig.Port (fst (BindConfig_Parse demo_parse_env NewDefaultBind ''foo://:9500?remote=r''))
       = 9500"
    by (simp add: BindConfig_Parse_def BindConfig_Parse_url_def demo_parse_env_def demo_url_def
        NewDefaultBind_def ParseUint_def is_digit_def digit_value_def ParseProtocol_def proto_defs
        BindConfig_valid_def Let_def FamilyIPv4_def FamilyIPv6_def IPv6Unspecified_def)
  have u: "url_Parse demo_parse_env ''foo://:9500?remote=r'' = Inr demo_url"
     "url_Parse demo_parse_env ''tcp+udp://:9500?remote=r'' = Inr (demo_url\<lparr>Scheme := ''tcp+udp''\<rparr>)"
    by (simp_all add: demo_parse_env_def)
  have sch: "Scheme demo_url \<noteq> ''''"
    "Scheme demo_url \<notin> {''tcp'', ''udp'', ''ip'', ''tcp+udp'', ''udp+tcp''}"
    by (simp_all add: demo_url_def)
  show ?thesis
    using e u sch BindConfig_Parse_unknown_scheme[OF _ u(1) _ u(2) sch, of NewDefaultBind]
    by simp
qed

end
